theory Spec2Isabelle
  imports Main "HOL-Library.AList"
begin

section \<open>The Cypress configuration transformer\<close>

text \<open>
  A shallow embedding of \<^verbatim>\<open>packages/cypress/src/utils/config/change-config-transformer.ts\<close>:
  the class \<^verbatim>\<open>CypressConfigTransformer\<close> with its two entry points
  \<^verbatim>\<open>addOrUpdateProperties\<close> and \<^verbatim>\<open>removeProperties\<close>, and the module functions
  \<^verbatim>\<open>fromLiteralToPrimitive\<close> and \<^verbatim>\<open>createPropertyAssignment\<close>.

  The TypeScript library (\<^verbatim>\<open>createSourceFile\<close>, \<^verbatim>\<open>createPrinter().printFile\<close>, the node
  factory) is the boundary of the model. A source text is represented by the syntax tree
  that \<^verbatim>\<open>createSourceFile\<close> returns for it, and the text an entry point returns by the tree
  that is handed to the printer.
\<close>

subsection \<open>JavaScript values\<close>

text \<open>
  A JavaScript number is represented by its canonical numeral, the string that
  \<^verbatim>\<open>String(n)\<close> returns. The code reads a number only as \<^verbatim>\<open>Number(node.text)\<close> of a numeric
  literal, whose \<^verbatim>\<open>text\<close> the scanner has already normalised to that rendering, and writes
  one only through \<^verbatim>\<open>createNumericLiteral(value)\<close>, which stores \<^verbatim>\<open>value + ""\<close>.
\<close>

datatype number = JSNumber string

definition Number :: "string \<Rightarrow> number" where
  "Number txt = JSNumber txt"

fun numberToString :: "number \<Rightarrow> string" where
  "numberToString (JSNumber txt) = txt"

text \<open>
  The values that reach \<^verbatim>\<open>createPropertyAssignment(factory, key, value: unknown)\<close>: the
  entries of the caller's \<^verbatim>\<open>newConfig\<close> (plain objects, listed in the order of
  \<^verbatim>\<open>Object.entries\<close>) and the entries of the metadata map (\<^verbatim>\<open>Map\<close> objects, listed in
  insertion order). \<^verbatim>\<open>JUndefined\<close> is the value that the unchecked cast in
  \<^verbatim>\<open>fromLiteralToPrimitive\<close> lets into a \<^verbatim>\<open>PrimitiveValue\<close>.
\<close>

datatype jsvalue =
    JUndefined
  | JNumber number
  | JString string
  | JBoolean bool
  | JObject "(string \<times> jsvalue) list"
  | JMap "(string \<times> jsvalue) list"

type_synonym metadata = "(string \<times> jsvalue) list"

text \<open>
  \<^verbatim>\<open>Map.prototype.get\<close> and \<^verbatim>\<open>Map.prototype.set\<close> on an insertion-ordered map: \<^verbatim>\<open>set\<close> on a
  key that is present replaces the value in place, on a new key it appends the entry.
\<close>

abbreviation Map_get :: "metadata \<Rightarrow> string \<Rightarrow> jsvalue option" where
  "Map_get m k \<equiv> map_of m k"

abbreviation Map_set :: "metadata \<Rightarrow> string \<Rightarrow> jsvalue \<Rightarrow> metadata" where
  "Map_set m k v \<equiv> AList.update k v m"

subsection \<open>Syntax trees\<close>

text \<open>
  The expression kinds the code tells apart. A call and a \<^verbatim>\<open>new\<close> expression are the kinds
  that have the properties \<^verbatim>\<open>expression\<close> and \<^verbatim>\<open>arguments\<close>; the argument list of a \<^verbatim>\<open>new\<close>
  expression is missing when it is written without parentheses. \<^verbatim>\<open>Identifier\<close> stands for
  the kinds other than the literals that carry a \<^verbatim>\<open>text\<close> property, \<^verbatim>\<open>OtherExpression\<close> for the
  kinds that have none of \<^verbatim>\<open>text\<close>, \<^verbatim>\<open>properties\<close> and \<^verbatim>\<open>arguments\<close> (an array literal, an arrow
  function, a prefix minus). The elements of an object literal are property assignments
  whose name carries a \<^verbatim>\<open>text\<close>; the code casts every element to that shape.
\<close>

datatype expression =
    NumericLiteral string
  | StringLiteral string
  | TrueKeyword
  | FalseKeyword
  | ObjectLiteralExpression "property list"
  | CallExpression expression "expression list"
  | NewExpression expression "expression list option"
  | Identifier string
  | OtherExpression string
and property =
    PropertyAssignment string expression

text \<open>
  A statement or any other node of the file: an export assignment (\<^verbatim>\<open>export default e\<close>, or
  \<^verbatim>\<open>export = e\<close> when the flag \<^verbatim>\<open>isExportEquals\<close> is set), or a node of another kind with
  its children. A source file is the list of the children of its root node.
\<close>

datatype node =
    ExportAssignment bool expression
  | OtherNode string "node list"

type_synonym SourceFile = "node list"

subsection \<open>Errors\<close>

text \<open>
  The code has no \<^verbatim>\<open>throw\<close> of its own. What can end a call early is the run time's
  \<^verbatim>\<open>TypeError\<close> at an unchecked cast:
  \<^item> \<^verbatim>\<open>NotIterable\<close>: \<^verbatim>\<open>for (const property of config.properties)\<close> where \<^verbatim>\<open>config\<close> is
    not an object literal, so that \<^verbatim>\<open>config.properties\<close> is \<^verbatim>\<open>undefined\<close>;
  \<^item> \<^verbatim>\<open>ReadOfUndefined\<close>: \<^verbatim>\<open>callExpression.arguments[0]\<close> where the exported expression
    has no \<^verbatim>\<open>arguments\<close>, and \<^verbatim>\<open>config.properties\<close> where the argument list is empty;
  \<^item> \<^verbatim>\<open>FactoryMisuse\<close>: a node factory is handed \<^verbatim>\<open>undefined\<close> or a value outside its
    declared type (\<^verbatim>\<open>createIdentifier(undefined)\<close>, \<^verbatim>\<open>createStringLiteral\<close> of a non-string,
    an \<^verbatim>\<open>undefined\<close> element of a property list). What the library does then is outside
    the code; the model ends the call there.
\<close>

datatype error = NotIterable | ReadOfUndefined | FactoryMisuse

subsection \<open>fromLiteralToPrimitive\<close>

fun nodeText :: "expression \<Rightarrow> string option" where
  "nodeText (NumericLiteral txt) = Some txt"
| "nodeText (StringLiteral txt) = Some txt"
| "nodeText (Identifier txt) = Some txt"
| "nodeText _ = None"

text \<open>
  Modelled from the spec: \<^verbatim>\<open>isBooleanLiteral\<close> of \<^verbatim>\<open>./transformer.helper\<close>, which is not
  among the sources; a boolean-literal node is the keyword \<^verbatim>\<open>true\<close> or \<^verbatim>\<open>false\<close>.
\<close>

fun isBooleanLiteral :: "expression \<Rightarrow> bool" where
  "isBooleanLiteral TrueKeyword = True"
| "isBooleanLiteral FalseKeyword = True"
| "isBooleanLiteral _ = False"

fun isNumericLiteral :: "expression \<Rightarrow> bool" where
  "isNumericLiteral (NumericLiteral _) = True"
| "isNumericLiteral _ = False"

text \<open>The last line is the cast \<^verbatim>\<open>(nodeInitializer as StringLiteral).text\<close>.\<close>

definition fromLiteralToPrimitive :: "expression \<Rightarrow> jsvalue" where
  "fromLiteralToPrimitive nodeInitializer =
     (if isNumericLiteral nodeInitializer
      then (case nodeText nodeInitializer of Some txt \<Rightarrow> JNumber (Number txt) | None \<Rightarrow> JUndefined)
      else if isBooleanLiteral nodeInitializer \<and> nodeInitializer = TrueKeyword then JBoolean True
      else if isBooleanLiteral nodeInitializer \<and> nodeInitializer = FalseKeyword then JBoolean False
      else (case nodeText nodeInitializer of Some txt \<Rightarrow> JString txt | None \<Rightarrow> JUndefined))"

subsection \<open>createPropertyAssignment\<close>

fun createStringLiteral :: "jsvalue \<Rightarrow> error + expression" where
  "createStringLiteral (JString s) = Inr (StringLiteral s)"
| "createStringLiteral _ = Inl FactoryMisuse"

fun createStringLiterals :: "jsvalue list \<Rightarrow> error + expression list" where
  "createStringLiterals [] = Inr []"
| "createStringLiterals (v # vs) =
     (case createStringLiteral v of
        Inl e \<Rightarrow> Inl e
      | Inr a \<Rightarrow> (case createStringLiterals vs of Inl e \<Rightarrow> Inl e | Inr as \<Rightarrow> Inr (a # as)))"

text \<open>
  The first equation for \<^verbatim>\<open>JMap\<close> is the branch \<^verbatim>\<open>key === 'devServer' && value instanceof Map\<close>;
  a plain object at the key \<^verbatim>\<open>devServer\<close> takes the \<^verbatim>\<open>'object'\<close> case of the switch. For
  \<^verbatim>\<open>undefined\<close> no case of the switch matches and the function returns \<^verbatim>\<open>undefined\<close>, which
  its caller puts into the property list of an object literal.
\<close>

fun createPropertyAssignment :: "string \<Rightarrow> jsvalue \<Rightarrow> error + property"
  and createPropertyAssignments :: "(string \<times> jsvalue) list \<Rightarrow> error + property list" where
  "createPropertyAssignment key (JMap entries) =
     (if key = ''devServer''
      then (case createStringLiterals (map snd entries) of
              Inl e \<Rightarrow> Inl e
            | Inr args \<Rightarrow> Inr (PropertyAssignment ''devServer''
                (CallExpression (Identifier ''componentDevServer'') args)))
      else (case createPropertyAssignments entries of
              Inl e \<Rightarrow> Inl e
            | Inr ps \<Rightarrow> Inr (PropertyAssignment key (ObjectLiteralExpression ps))))"
| "createPropertyAssignment key (JNumber n) =
     Inr (PropertyAssignment key (NumericLiteral (numberToString n)))"
| "createPropertyAssignment key (JString s) =
     Inr (PropertyAssignment key (StringLiteral s))"
| "createPropertyAssignment key (JBoolean b) =
     Inr (PropertyAssignment key (if b then TrueKeyword else FalseKeyword))"
| "createPropertyAssignment key (JObject entries) =
     (case createPropertyAssignments entries of
        Inl e \<Rightarrow> Inl e
      | Inr ps \<Rightarrow> Inr (PropertyAssignment key (ObjectLiteralExpression ps)))"
| "createPropertyAssignment key JUndefined = Inl FactoryMisuse"
| "createPropertyAssignments [] = Inr []"
| "createPropertyAssignments ((configKey, configValue) # entries) =
     (case createPropertyAssignment configKey configValue of
        Inl e \<Rightarrow> Inl e
      | Inr p \<Rightarrow> (case createPropertyAssignments entries of
                   Inl e \<Rightarrow> Inl e
                 | Inr ps \<Rightarrow> Inr (p # ps)))"

subsection \<open>buildMetadataFromConfig\<close>

definition devServerPositionalArgument :: "string list" where
  "devServerPositionalArgument = [''tsConfig'', ''compiler'']"

text \<open>
  The rewriting of a call at the key \<^verbatim>\<open>devServer\<close> into an object literal: argument number
  \<^verbatim>\<open>index\<close> becomes the property named \<^verbatim>\<open>devServerPositionalArgument[index]\<close>. Beyond the
  table the name is \<^verbatim>\<open>undefined\<close> and \<^verbatim>\<open>createIdentifier\<close> is misused.
\<close>

fun positionalProperties :: "nat \<Rightarrow> expression list \<Rightarrow> error + property list" where
  "positionalProperties index [] = Inr []"
| "positionalProperties index (arg # args) =
     (if index < length devServerPositionalArgument
      then (case positionalProperties (Suc index) args of
              Inl e \<Rightarrow> Inl e
            | Inr ps \<Rightarrow> Inr (PropertyAssignment (devServerPositionalArgument ! index) arg # ps))
      else Inl FactoryMisuse)"

definition devServerInitializer :: "string \<Rightarrow> expression \<Rightarrow> error + expression" where
  "devServerInitializer assignmentName initializer =
     (if assignmentName = ''devServer''
      then (case initializer of
              CallExpression callee args \<Rightarrow>
                (case positionalProperties 0 args of
                   Inl e \<Rightarrow> Inl e
                 | Inr ps \<Rightarrow> Inr (ObjectLiteralExpression ps))
            | _ \<Rightarrow> Inr initializer)
      else Inr initializer)"

definition propertyPathOf :: "string \<Rightarrow> string \<Rightarrow> string" where
  "propertyPathOf parentPrefix assignmentName =
     (if parentPrefix \<noteq> [] then parentPrefix @ ''.'' @ assignmentName else assignmentName)"

text \<open>A measure of a tree under which the rewritten \<^verbatim>\<open>devServer\<close> call is not larger than the call.\<close>

fun weight :: "expression \<Rightarrow> nat" and weightP :: "property \<Rightarrow> nat" where
  "weight (ObjectLiteralExpression ps) = Suc (sum_list (map weightP ps))"
| "weight (CallExpression callee args) = Suc (weight callee + sum_list (map (\<lambda>a. Suc (Suc (weight a))) args))"
| "weight (NumericLiteral _) = 1"
| "weight (StringLiteral _) = 1"
| "weight TrueKeyword = 1"
| "weight FalseKeyword = 1"
| "weight (NewExpression _ _) = 1"
| "weight (Identifier _) = 1"
| "weight (OtherExpression _) = 1"
| "weightP (PropertyAssignment _ initializer) = Suc (weight initializer)"

lemma positionalProperties_weight:
  "positionalProperties index args = Inr ps \<Longrightarrow>
     sum_list (map weightP ps) \<le> sum_list (map (\<lambda>a. Suc (Suc (weight a))) args)"
proof (induction args arbitrary: index ps)
  case Nil
  then show ?case by simp
next
  case (Cons arg args)
  then show ?case
    by (fastforce split: if_splits sum.splits)
qed

lemma devServerInitializer_weight:
  "devServerInitializer assignmentName init = Inr initializer \<Longrightarrow> weight initializer \<le> weight init"
  by (auto simp: devServerInitializer_def split: if_splits expression.splits sum.splits
           dest: positionalProperties_weight)

text \<open>
  What the body of the loop does with a property once its path is not removed and its
  initializer is settled (lines 221 to 250), depending on \<^verbatim>\<open>metadataMap.get(assignmentName)\<close>:
  \<^item> \<^verbatim>\<open>existingMetadata !== undefined\<close> and it is a \<^verbatim>\<open>Map\<close>: recurse into it, then \<^verbatim>\<open>continue\<close>;
  \<^item> \<^verbatim>\<open>existingMetadata !== undefined\<close> otherwise: \<^verbatim>\<open>continue\<close>;
  \<^item> no value (or the value \<^verbatim>\<open>undefined\<close>) and the initializer is an object literal: store
    a \<^verbatim>\<open>new Map()\<close> and recurse into it;
  \<^item> else store \<^verbatim>\<open>fromLiteralToPrimitive(assignment.initializer)\<close>.
\<close>

datatype step = Continue | Descend metadata | Assign jsvalue

definition stepFor :: "jsvalue option \<Rightarrow> expression \<Rightarrow> step" where
  "stepFor existingMetadata initializer =
     (if existingMetadata \<noteq> None \<and> existingMetadata \<noteq> Some JUndefined
      then (case existingMetadata of Some (JMap existing) \<Rightarrow> Descend existing | _ \<Rightarrow> Continue)
      else (case initializer of
              ObjectLiteralExpression _ \<Rightarrow> Descend []
            | _ \<Rightarrow> Assign (fromLiteralToPrimitive initializer)))"

text \<open>
  The loop \<^verbatim>\<open>for (const property of config.properties)\<close> is \<open>forEachProperty\<close>; the map
  that the source mutates in place is passed in and returned. The child map of a nested
  object is stored under its key before the recursive call fills it; since only that call
  holds a reference to it, storing the filled map afterwards is the same. An existing child
  map is filled in place, which \<^verbatim>\<open>Map_set\<close> on its key renders.
\<close>

function (sequential)
  buildMetadataFromConfig :: "expression \<Rightarrow> metadata \<Rightarrow> string list \<Rightarrow> string \<Rightarrow> error + metadata"
  and forEachProperty :: "property list \<Rightarrow> metadata \<Rightarrow> string list \<Rightarrow> string \<Rightarrow> error + metadata"
where
  "buildMetadataFromConfig (ObjectLiteralExpression properties) metadataMap propertiesToRemove parentPrefix =
     forEachProperty properties metadataMap propertiesToRemove parentPrefix"
| "buildMetadataFromConfig _ metadataMap propertiesToRemove parentPrefix = Inl NotIterable"
| "forEachProperty [] metadataMap propertiesToRemove parentPrefix = Inr metadataMap"
| "forEachProperty (PropertyAssignment assignmentName init # rest) metadataMap propertiesToRemove parentPrefix =
     (if propertyPathOf parentPrefix assignmentName \<in> set propertiesToRemove
      then forEachProperty rest metadataMap propertiesToRemove parentPrefix
      else
        (case devServerInitializer assignmentName init of
           Inl e \<Rightarrow> Inl e
         | Inr initializer \<Rightarrow>
            (case stepFor (Map_get metadataMap assignmentName) initializer of
               Continue \<Rightarrow> forEachProperty rest metadataMap propertiesToRemove parentPrefix
             | Descend childMetadataMap \<Rightarrow>
                 (case buildMetadataFromConfig initializer childMetadataMap propertiesToRemove
                         (propertyPathOf parentPrefix assignmentName) of
                    Inl e \<Rightarrow> Inl e
                  | Inr childMetadataMap' \<Rightarrow>
                      forEachProperty rest (Map_set metadataMap assignmentName (JMap childMetadataMap'))
                        propertiesToRemove parentPrefix)
             | Assign v \<Rightarrow>
                 forEachProperty rest (Map_set metadataMap assignmentName v)
                   propertiesToRemove parentPrefix)))"
  by pat_completeness auto
termination
  by (relation "measure (\<lambda>x. case x of
          Inl (config, _) \<Rightarrow> weight config
        | Inr (properties, _) \<Rightarrow> sum_list (map weightP properties))")
     (auto dest: devServerInitializer_weight)

subsection \<open>The transformer\<close>

text \<open>
  The static fields of the class. They outlive a call, so every entry point takes the
  state the previous calls left and returns the one it leaves.
\<close>

record transformerState =
  configMetadataMap :: metadata
  propertiesToRemove :: "string list"
  sourceFile :: "SourceFile option"

datatype change = Upsert "(string \<times> jsvalue) list" bool | Delete

fun readsExisting :: "change \<Rightarrow> bool" where
  "readsExisting Delete = True"
| "readsExisting (Upsert newConfig overwrite) = (\<not> overwrite)"

text \<open>
  The properties \<^verbatim>\<open>expression\<close> and \<^verbatim>\<open>arguments\<close> of the node that line 137 casts to a call
  expression. The cast checks nothing: a \<^verbatim>\<open>new\<close> expression with an argument list has both,
  any other kind has no \<^verbatim>\<open>arguments\<close>.
\<close>

fun calleeAndArguments :: "expression \<Rightarrow> (expression \<times> expression list) option" where
  "calleeAndArguments (CallExpression callee arguments) = Some (callee, arguments)"
| "calleeAndArguments (NewExpression callee (Some arguments)) = Some (callee, arguments)"
| "calleeAndArguments _ = None"

text \<open>
  The branch \<^verbatim>\<open>isExportAssignment(node)\<close> of \<^verbatim>\<open>nodeVisitor\<close>. \<^verbatim>\<open>callExpression.arguments[0]\<close> is
  evaluated first, whatever the change is; the existing configuration is read only when
  the change is a deletion or an upsert that does not overwrite; \<^verbatim>\<open>updateCallExpression\<close>
  then builds a call expression (also from a \<^verbatim>\<open>new\<close> expression) with the object literal of
  the metadata map as its only argument. The callee is kept, and so are the type arguments
  and the modifiers of the export, which the model leaves out.
\<close>

definition visitExportAssignment ::
  "change \<Rightarrow> transformerState \<Rightarrow> bool \<Rightarrow> expression \<Rightarrow> error + (node \<times> transformerState)" where
  "visitExportAssignment change this isExportEquals callExpression =
     (case calleeAndArguments callExpression of
        Some (callee, arguments) \<Rightarrow>
          (case (if readsExisting change
                 then (case arguments of
                         [] \<Rightarrow> Inl ReadOfUndefined
                       | rootConfigNode # _ \<Rightarrow>
                           (case buildMetadataFromConfig rootConfigNode (configMetadataMap this)
                                   (propertiesToRemove this) [] of
                              Inl e \<Rightarrow> Inl e
                            | Inr m \<Rightarrow> Inr (this\<lparr>configMetadataMap := m\<rparr>)))
                 else Inr this) of
             Inl e \<Rightarrow> Inl e
           | Inr this' \<Rightarrow>
               (case createPropertyAssignments (configMetadataMap this') of
                  Inl e \<Rightarrow> Inl e
                | Inr ps \<Rightarrow>
                    Inr (ExportAssignment isExportEquals
                           (CallExpression callee [ObjectLiteralExpression ps]), this')))
      | None \<Rightarrow> Inl ReadOfUndefined)"

text \<open>\<^verbatim>\<open>nodeVisitor\<close>, and \<^verbatim>\<open>visitEachChild\<close> over the children of a node, in document order.\<close>

fun nodeVisitor :: "change \<Rightarrow> transformerState \<Rightarrow> node \<Rightarrow> error + (node \<times> transformerState)"
  and visitEachChild :: "change \<Rightarrow> transformerState \<Rightarrow> node list \<Rightarrow> error + (node list \<times> transformerState)"
where
  "nodeVisitor change this (ExportAssignment isExportEquals e) =
     visitExportAssignment change this isExportEquals e"
| "nodeVisitor change this (OtherNode kind children) =
     (case visitEachChild change this children of
        Inl e \<Rightarrow> Inl e
      | Inr (children', this') \<Rightarrow> Inr (OtherNode kind children', this'))"
| "visitEachChild change this [] = Inr ([], this)"
| "visitEachChild change this (n # ns) =
     (case nodeVisitor change this n of
        Inl e \<Rightarrow> Inl e
      | Inr (n', this') \<Rightarrow>
          (case visitEachChild change this' ns of
             Inl e \<Rightarrow> Inl e
           | Inr (ns', this'') \<Rightarrow> Inr (n' # ns', this'')))"

text \<open>
  \<^verbatim>\<open>changePropertiesTransformer(change)\<close> applied by \<^verbatim>\<open>transform\<close>: for an upsert the new
  configuration is first turned into an object literal and read into the metadata map;
  then the file is visited.
\<close>

definition changePropertiesTransformer ::
  "change \<Rightarrow> transformerState \<Rightarrow> SourceFile \<Rightarrow> error + (SourceFile \<times> transformerState)" where
  "changePropertiesTransformer change this file =
     (case (case change of
              Upsert newConfig overwrite \<Rightarrow>
                (case createPropertyAssignments newConfig of
                   Inl e \<Rightarrow> Inl e
                 | Inr ps \<Rightarrow>
                     (case buildMetadataFromConfig (ObjectLiteralExpression ps) (configMetadataMap this)
                             (propertiesToRemove this) [] of
                        Inl e \<Rightarrow> Inl e
                      | Inr m \<Rightarrow> Inr (this\<lparr>configMetadataMap := m\<rparr>)))
            | Delete \<Rightarrow> Inr this) of
        Inl e \<Rightarrow> Inl e
      | Inr this' \<Rightarrow> visitEachChild change this' file)"

definition removeProperties ::
  "transformerState \<Rightarrow> SourceFile \<Rightarrow> string list \<Rightarrow> error + (SourceFile \<times> transformerState)" where
  "removeProperties this existingConfigContent toRemove =
     changePropertiesTransformer Delete
       (this\<lparr>configMetadataMap := [], propertiesToRemove := toRemove,
             sourceFile := Some existingConfigContent\<rparr>)
       existingConfigContent"

definition addOrUpdateProperties ::
  "transformerState \<Rightarrow> SourceFile \<Rightarrow> (string \<times> jsvalue) list \<Rightarrow> bool
     \<Rightarrow> error + (SourceFile \<times> transformerState)" where
  "addOrUpdateProperties this existingConfigContent newConfig overwrite =
     changePropertiesTransformer (Upsert newConfig overwrite)
       (this\<lparr>configMetadataMap := [], propertiesToRemove := [],
             sourceFile := Some existingConfigContent\<rparr>)
       existingConfigContent"

subsection \<open>Vocabulary of the properties\<close>

text \<open>
  The state before the first call: the initialisers of the static fields.
\<close>

definition initialState :: transformerState where
  "initialState = \<lparr>configMetadataMap = [], propertiesToRemove = [], sourceFile = None\<rparr>"

text \<open>The export assignments of a file, in the order in which the visitor meets them.\<close>

fun exportAssignments :: "node \<Rightarrow> (bool \<times> expression) list"
  and exportAssignmentsOf :: "node list \<Rightarrow> (bool \<times> expression) list" where
  "exportAssignments (ExportAssignment isExportEquals e) = [(isExportEquals, e)]"
| "exportAssignments (OtherNode kind children) = exportAssignmentsOf children"
| "exportAssignmentsOf [] = []"
| "exportAssignmentsOf (n # ns) = exportAssignments n @ exportAssignmentsOf ns"

text \<open>The first argument of a call expression, when there is one.\<close>

fun rootConfigNode :: "expression \<Rightarrow> expression option" where
  "rootConfigNode (CallExpression callee (argument # _)) = Some argument"
| "rootConfigNode _ = None"

fun isObjectLiteralExpression :: "expression \<Rightarrow> bool" where
  "isObjectLiteralExpression (ObjectLiteralExpression _) = True"
| "isObjectLiteralExpression _ = False"

text \<open>
  The recognized export of a file: its only export assignment, when that is a default
  export of a call whose first argument is an object literal; the result is that object
  literal.
\<close>

definition recognizedExport :: "SourceFile \<Rightarrow> expression option" where
  "recognizedExport file =
     (case exportAssignmentsOf file of
        [(isExportEquals, e)] \<Rightarrow>
          (case rootConfigNode e of
             Some root \<Rightarrow> if \<not> isExportEquals \<and> isObjectLiteralExpression root then Some root else None
           | None \<Rightarrow> None)
      | _ \<Rightarrow> None)"

text \<open>
  The decoded configuration of a file: what \<^verbatim>\<open>buildMetadataFromConfig\<close> reads from the
  recognized export into an empty map, with nothing to remove.
\<close>

definition decodedConfiguration :: "SourceFile \<Rightarrow> metadata option" where
  "decodedConfiguration file =
     (case recognizedExport file of
        None \<Rightarrow> None
      | Some root \<Rightarrow>
          (case buildMetadataFromConfig root [] [] [] of Inl e \<Rightarrow> None | Inr m \<Rightarrow> Some m))"

text \<open>
  A file of the shape of the one in the unit test: an import, then the default export
  of \<^verbatim>\<open>defineConfig(config)\<close>.
\<close>

definition exampleFile :: "expression \<Rightarrow> SourceFile" where
  "exampleFile config =
     [OtherNode ''ImportDeclaration'' [],
      ExportAssignment False (CallExpression (Identifier ''defineConfig'') [config])]"

text \<open>
  The object literal \<^verbatim>\<open>{a: 1, b: {x: 1, y: 2}}\<close>, the configuration it decodes to, and the
  new configuration \<^verbatim>\<open>{b: {x: 9}}\<close>.
\<close>

definition configAB :: expression where
  "configAB = ObjectLiteralExpression
     [PropertyAssignment ''a'' (NumericLiteral ''1''),
      PropertyAssignment ''b'' (ObjectLiteralExpression
         [PropertyAssignment ''x'' (NumericLiteral ''1''),
          PropertyAssignment ''y'' (NumericLiteral ''2'')])]"

definition decodedAB :: metadata where
  "decodedAB = [(''a'', JNumber (JSNumber ''1'')),
                (''b'', JMap [(''x'', JNumber (JSNumber ''1'')), (''y'', JNumber (JSNumber ''2''))])]"

definition newB :: "(string \<times> jsvalue) list" where
  "newB = [(''b'', JObject [(''x'', JNumber (JSNumber ''9''))])]"

text \<open>
  The shapes of a property value that the code decodes as such: a numeric, string or
  boolean literal, an object literal, and a call at the key \<^verbatim>\<open>devServer\<close>.
\<close>

fun supportedShape :: "string \<Rightarrow> expression \<Rightarrow> bool" where
  "supportedShape assignmentName (NumericLiteral _) = True"
| "supportedShape assignmentName (StringLiteral _) = True"
| "supportedShape assignmentName TrueKeyword = True"
| "supportedShape assignmentName FalseKeyword = True"
| "supportedShape assignmentName (ObjectLiteralExpression _) = True"
| "supportedShape assignmentName (CallExpression _ _) = (assignmentName = ''devServer'')"
| "supportedShape assignmentName _ = False"

text \<open>
  A new configuration as the interface takes it: nested plain objects whose leaves are
  numbers, strings and booleans; an object has each of its keys once.
\<close>

fun plainValue :: "jsvalue \<Rightarrow> bool" and plainEntries :: "(string \<times> jsvalue) list \<Rightarrow> bool" where
  "plainValue (JNumber _) = True"
| "plainValue (JString _) = True"
| "plainValue (JBoolean _) = True"
| "plainValue (JObject entries) = plainEntries entries"
| "plainValue (JMap _) = False"
| "plainValue JUndefined = False"
| "plainEntries [] = True"
| "plainEntries ((k, v) # entries) = (k \<notin> fst ` set entries \<and> plainValue v \<and> plainEntries entries)"

fun isCallExpression :: "expression \<Rightarrow> bool" where
  "isCallExpression (CallExpression _ _) = True"
| "isCallExpression _ = False"

text \<open>
  An exported expression from which the visitor reads an object literal: it has an argument
  list (it is a call, or a \<^verbatim>\<open>new\<close> expression with parentheses), and the first argument,
  \<^verbatim>\<open>callExpression.arguments[0]\<close> of lines 137 to 139, is an object literal.
\<close>

definition exportsObjectLiteral :: "expression \<Rightarrow> bool" where
  "exportsObjectLiteral e =
     (case calleeAndArguments e of
        Some (callee, root # _) \<Rightarrow> isObjectLiteralExpression root
      | _ \<Rightarrow> False)"

text \<open>The object literal \<^verbatim>\<open>{b: {x: 1}}\<close> and the configuration it decodes to.\<close>

definition configBX :: expression where
  "configBX = ObjectLiteralExpression
     [PropertyAssignment ''b'' (ObjectLiteralExpression [PropertyAssignment ''x'' (NumericLiteral ''1'')])]"

definition decodedBX :: metadata where
  "decodedBX = [(''b'', JMap [(''x'', JNumber (JSNumber ''1''))])]"

text \<open>
  A configuration without the entries at the paths to remove: an entry whose dotted path
  is listed is dropped with all below it, every other entry is kept, in its place.
\<close>

fun pruneValue :: "string list \<Rightarrow> string \<Rightarrow> jsvalue \<Rightarrow> jsvalue"
  and pruneEntries :: "string list \<Rightarrow> string \<Rightarrow> metadata \<Rightarrow> metadata" where
  "pruneValue toRemove path (JMap entries) = JMap (pruneEntries toRemove path entries)"
| "pruneValue toRemove path v = v"
| "pruneEntries toRemove parentPrefix [] = []"
| "pruneEntries toRemove parentPrefix ((k, v) # entries) =
     (if propertyPathOf parentPrefix k \<in> set toRemove
      then pruneEntries toRemove parentPrefix entries
      else (k, pruneValue toRemove (propertyPathOf parentPrefix k) v)
             # pruneEntries toRemove parentPrefix entries)"

text \<open>
  A configuration all of whose property values, at every depth of nested object literals,
  have a supported shape; and a file whose recognized export is such a configuration.
\<close>

fun supportedConfig :: "expression \<Rightarrow> bool" and supportedProperties :: "property list \<Rightarrow> bool" where
  "supportedConfig (ObjectLiteralExpression properties) = supportedProperties properties"
| "supportedConfig _ = True"
| "supportedProperties [] = True"
| "supportedProperties (PropertyAssignment assignmentName init # rest) =
     (supportedShape assignmentName init \<and> supportedConfig init \<and> supportedProperties rest)"

definition supportedExport :: "SourceFile \<Rightarrow> bool" where
  "supportedExport file =
     (case recognizedExport file of None \<Rightarrow> False | Some root \<Rightarrow> supportedConfig root)"

text \<open>
  The object literal \<^verbatim>\<open>{a: 1, b: foo(), b: {x: 1, y: 2}}\<close>: the key \<^verbatim>\<open>b\<close> is written twice,
  first with a call as its value.
\<close>

definition configAB_shadowed :: expression where
  "configAB_shadowed = ObjectLiteralExpression
     [PropertyAssignment ''a'' (NumericLiteral ''1''),
      PropertyAssignment ''b'' (CallExpression (Identifier ''foo'') []),
      PropertyAssignment ''b'' (ObjectLiteralExpression
         [PropertyAssignment ''x'' (NumericLiteral ''1''),
          PropertyAssignment ''y'' (NumericLiteral ''2'')])]"

text \<open>
  A value at whose key the loop goes on to the next property (\<^verbatim>\<open>existingMetadata !== undefined\<close>
  and not a \<^verbatim>\<open>Map\<close>); and the map that has the entry \<^verbatim>\<open>k\<close>, \<^verbatim>\<open>v\<close> first and then the entries of
  \<^verbatim>\<open>M\<close> at the other keys.
\<close>

fun continues :: "jsvalue \<Rightarrow> bool" where
  "continues JUndefined = False"
| "continues (JMap _) = False"
| "continues _ = True"

definition shadowed :: "string \<Rightarrow> jsvalue \<Rightarrow> metadata \<Rightarrow> metadata" where
  "shadowed k v M = (k, v) # filter (\<lambda>entry. fst entry \<noteq> k) M"

text \<open>
  What the cast \<^verbatim>\<open>(nodeInitializer as StringLiteral).text\<close> gives for a node: its \<^verbatim>\<open>text\<close> as a
  string, or \<^verbatim>\<open>undefined\<close> when the node has none.
\<close>

definition textOfCast :: "expression \<Rightarrow> jsvalue" where
  "textOfCast nodeInitializer =
     (case nodeText nodeInitializer of Some txt \<Rightarrow> JString txt | None \<Rightarrow> JUndefined)"










section \<open>Properties\<close>

subsection \<open>Independence of earlier calls\<close>

lemma state_reset:
  "(s1::transformerState)\<lparr>configMetadataMap := m, propertiesToRemove := r, sourceFile := f\<rparr>
   = s2\<lparr>configMetadataMap := m, propertiesToRemove := r, sourceFile := f\<rparr>"
  by (cases s1, cases s2) simp

text \<open>
  C10: the static fields are shared by all calls, but each entry point assigns all of them
  before it reads any. So whatever state the earlier calls have left (\<open>s1\<close> or \<open>s2\<close>), a
  call with the same arguments returns the same result: the same text, or the same failure.
\<close>

theorem entry_points_ignore_previous_state:
  "addOrUpdateProperties s1 existingConfigContent newConfig overwrite =
     addOrUpdateProperties s2 existingConfigContent newConfig overwrite
   \<and> removeProperties s1 existingConfigContent toRemove =
     removeProperties s2 existingConfigContent toRemove"
proof
  show "addOrUpdateProperties s1 existingConfigContent newConfig overwrite =
     addOrUpdateProperties s2 existingConfigContent newConfig overwrite"
    unfolding addOrUpdateProperties_def
    by (subst state_reset [where ?s1.0 = s1 and ?s2.0 = s2]) (rule refl)
  show "removeProperties s1 existingConfigContent toRemove =
     removeProperties s2 existingConfigContent toRemove"
    unfolding removeProperties_def
    by (subst state_reset [where ?s1.0 = s1 and ?s2.0 = s2]) (rule refl)
qed

subsection \<open>The visitor\<close>

text \<open>
  Only export assignments are rewritten: a file without one is returned as it is, a file
  with one is rewritten at that node, and a failure at any export assignment is the
  failure of the whole call.
\<close>

lemma visit_no_export:
  "(exportAssignments n = [] \<longrightarrow> nodeVisitor change this n = Inr (n, this))"
  "(exportAssignmentsOf ns = [] \<longrightarrow> visitEachChild change this ns = Inr (ns, this))"
  by (induction n and ns arbitrary: this and this rule: exportAssignments_exportAssignmentsOf.induct) simp_all

lemma visit_single_export:
  "(exportAssignments n = [(eq, e)] \<longrightarrow> visitExportAssignment change this eq e = Inr (r, this')
      \<longrightarrow> (\<exists>n'. nodeVisitor change this n = Inr (n', this') \<and> exportAssignments n' = exportAssignments r))"
  "(exportAssignmentsOf ns = [(eq, e)] \<longrightarrow> visitExportAssignment change this eq e = Inr (r, this')
      \<longrightarrow> (\<exists>ns'. visitEachChild change this ns = Inr (ns', this') \<and> exportAssignmentsOf ns' = exportAssignments r))"
proof (induction n and ns arbitrary: this and this rule: exportAssignments_exportAssignmentsOf.induct)
  case (1 isExportEquals e0)
  then show ?case by auto
next
  case (2 kind children)
  then show ?case by fastforce
next
  case 3
  then show ?case by simp
next
  case (4 n ns)
  show ?case
  proof (intro impI)
    assume a: "exportAssignmentsOf (n # ns) = [(eq, e)]"
      and v: "visitExportAssignment change this eq e = Inr (r, this')"
    from a have "exportAssignments n @ exportAssignmentsOf ns = [(eq, e)]" by simp
    then consider (left) "exportAssignments n = [(eq, e)]" "exportAssignmentsOf ns = []"
      | (right) "exportAssignments n = []" "exportAssignmentsOf ns = [(eq, e)]"
      by (auto simp: append_eq_Cons_conv)
    then show "\<exists>ns'. visitEachChild change this (n # ns) = Inr (ns', this') \<and>
               exportAssignmentsOf ns' = exportAssignments r"
    proof cases
      case left
      with 4 v obtain n' where n': "nodeVisitor change this n = Inr (n', this')"
         "exportAssignments n' = exportAssignments r" by blast
      from left(2) have "visitEachChild change this' ns = Inr (ns, this')"
        by (simp add: visit_no_export)
      with n' left show ?thesis by simp
    next
      case right
      then have "nodeVisitor change this n = Inr (n, this)" by (simp add: visit_no_export)
      moreover from right 4 v obtain ns' where "visitEachChild change this ns = Inr (ns', this')"
         "exportAssignmentsOf ns' = exportAssignments r" by blast
      ultimately show ?thesis using right by simp
    qed
  qed
qed

lemma visit_failing_export:
  assumes "\<And>this. \<exists>err. visitExportAssignment change this eq e = Inl err"
  shows "((eq, e) \<in> set (exportAssignments n) \<longrightarrow> (\<exists>err. nodeVisitor change this n = Inl err))"
    and "((eq, e) \<in> set (exportAssignmentsOf ns) \<longrightarrow> (\<exists>err. visitEachChild change this ns = Inl err))"
proof (induction n and ns arbitrary: this and this rule: exportAssignments_exportAssignmentsOf.induct)
  case (1 isExportEquals e0)
  then show ?case using assms by auto
next
  case (2 kind children)
  show ?case
  proof (intro impI)
    assume "(eq, e) \<in> set (exportAssignments (OtherNode kind children))"
    with 2 [of this] obtain err where "visitEachChild change this children = Inl err" by auto
    then show "\<exists>err. nodeVisitor change this (OtherNode kind children) = Inl err" by simp
  qed
next
  case 3
  then show ?case by simp
next
  case (4 n ns)
  show ?case
  proof (intro impI)
    assume mem: "(eq, e) \<in> set (exportAssignmentsOf (n # ns))"
    show "\<exists>err. visitEachChild change this (n # ns) = Inl err"
    proof (cases "nodeVisitor change this n")
      case (Inl a)
      then show ?thesis by simp
    next
      case (Inr b)
      obtain n' t where b: "b = (n', t)" by (cases b)
      from Inr 4(1) [of this] have "(eq, e) \<notin> set (exportAssignments n)" by auto
      with mem have "(eq, e) \<in> set (exportAssignmentsOf ns)" by simp
      with 4(2) [of t] obtain err where "visitEachChild change t ns = Inl err" by auto
      with Inr b show ?thesis by simp
    qed
  qed
qed

lemma visit_overwrite:
  assumes "\<not> readsExisting change"
  shows "nodeVisitor change this n = Inr (n', this') \<longrightarrow>
           this' = this \<and> (\<forall>that. configMetadataMap that = configMetadataMap this
              \<longrightarrow> nodeVisitor change that n' = Inr (n', that))"
    and "visitEachChild change this ns = Inr (ns', this') \<longrightarrow>
           this' = this \<and> (\<forall>that. configMetadataMap that = configMetadataMap this
              \<longrightarrow> visitEachChild change that ns' = Inr (ns', that))"
proof (induction n and ns arbitrary: this n' this' and this ns' this' rule: exportAssignments_exportAssignmentsOf.induct)
  case (1 isExportEquals e0)
  then show ?case using assms
    by (auto simp: visitExportAssignment_def split: option.splits sum.splits)
next
  case (2 kind children)
  then show ?case by (auto split: sum.splits)
next
  case 3
  then show ?case by auto
next
  case (4 n ns)
  show ?case
  proof (intro impI)
    assume a: "visitEachChild change this (n # ns) = Inr (ns', this')"
    then obtain m1 t1 ms where 
       s1: "nodeVisitor change this n = Inr (m1, t1)" and s2: "visitEachChild change t1 ns = Inr (ms, this')"
       and eq: "ns' = m1 # ms"
      by (auto split: sum.splits)
    from 4(1) s1 have t1: "t1 = this" and i1: "\<And>that. configMetadataMap that = configMetadataMap this
              \<Longrightarrow> nodeVisitor change that m1 = Inr (m1, that)" by blast+
    from 4(2) s2 t1 have t2: "this' = this" and i2: "\<And>that. configMetadataMap that = configMetadataMap this
              \<Longrightarrow> visitEachChild change that ms = Inr (ms, that)" by blast+
    show "this' = this \<and> (\<forall>that. configMetadataMap that = configMetadataMap this
              \<longrightarrow> visitEachChild change that ns' = Inr (ns', that))"
      using t2 i1 i2 eq by simp
  qed
qed


subsection \<open>Files with one recognized export\<close>

lemma recognizedExport_SomeD:
  assumes "recognizedExport file = Some root"
  obtains callee args ps where
    "exportAssignmentsOf file = [(False, CallExpression callee (root # args))]"
    "root = ObjectLiteralExpression ps"
proof -
  from assms obtain isEq e where ex: "exportAssignmentsOf file = [(isEq, e)]"
    and r: "(case rootConfigNode e of
             Some root \<Rightarrow> if \<not> isEq \<and> isObjectLiteralExpression root then Some root else None
           | None \<Rightarrow> None) = Some root"
    by (auto simp: recognizedExport_def split: list.splits)
  from r have rc: "rootConfigNode e = Some root" and ne: "\<not> isEq" and ob: "isObjectLiteralExpression root"
    by (auto split: option.splits if_splits)
  from rc obtain callee args where "e = CallExpression callee (root # args)"
    by (cases e rule: rootConfigNode.cases) auto
  moreover from ob obtain ps where "root = ObjectLiteralExpression ps"
    by (cases root) auto
  ultimately show ?thesis using that ex ne by simp
qed

lemma recognizedExport_single:
  "exportAssignmentsOf file = [(False, CallExpression callee (ObjectLiteralExpression ps # args))]
   \<Longrightarrow> recognizedExport file = Some (ObjectLiteralExpression ps)"
  by (simp add: recognizedExport_def)

lemma transform_single_export:
  assumes rec: "recognizedExport file = Some root"
    and m: "if readsExisting change
            then buildMetadataFromConfig root (configMetadataMap this) (propertiesToRemove this) [] = Inr m
            else m = configMetadataMap this"
    and enc: "createPropertyAssignments m = Inr ps"
  shows "\<exists>file'. visitEachChild change this file = Inr (file', this\<lparr>configMetadataMap := m\<rparr>)
           \<and> recognizedExport file' = Some (ObjectLiteralExpression ps)"
proof -
  from rec obtain callee args where
    ex: "exportAssignmentsOf file = [(False, CallExpression callee (root # args))]"
    by (rule recognizedExport_SomeD)
  have "visitExportAssignment change this False (CallExpression callee (root # args))
          = Inr (ExportAssignment False (CallExpression callee [ObjectLiteralExpression ps]),
                 this\<lparr>configMetadataMap := m\<rparr>)"
    using m enc by (cases "readsExisting change") (simp_all add: visitExportAssignment_def)
  from visit_single_export(2) [rule_format, OF ex this]
  obtain file' where "visitEachChild change this file = Inr (file', this\<lparr>configMetadataMap := m\<rparr>)"
    "exportAssignmentsOf file' = [(False, CallExpression callee [ObjectLiteralExpression ps])]"
    by auto
  then show ?thesis by (auto intro: recognizedExport_single)
qed

lemmas eval_defs = addOrUpdateProperties_def removeProperties_def changePropertiesTransformer_def
  visitExportAssignment_def propertyPathOf_def devServerInitializer_def devServerPositionalArgument_def
  stepFor_def fromLiteralToPrimitive_def Number_def initialState_def exampleFile_def
  recognizedExport_def decodedConfiguration_def


lemmas example_defs = configAB_def decodedAB_def newB_def

lemma decoded_exampleFile: "decodedConfiguration (exampleFile configAB) = Some decodedAB"
  by (simp add: eval_defs example_defs)


subsection \<open>Overwriting\<close>

text \<open>
  C9: when \<^verbatim>\<open>addOrUpdateProperties(S, C, true)\<close> returns the text \<open>S1\<close>, applying it to \<open>S1\<close>
  with the same \<open>C\<close> returns \<open>S1\<close> again, whatever \<open>S\<close> and \<open>C\<close> are; so the decoded
  configuration of the second result is that of the first. (The second call reads the text
  that the first has printed: \<open>S1\<close> stands for the tree the parser gives back for it.)
\<close>

theorem overwrite_idempotent:
  assumes "addOrUpdateProperties s S C True = Inr (S1, s1)"
  shows "\<exists>S2 s2. addOrUpdateProperties s1 S1 C True = Inr (S2, s2) \<and> S2 = S1
           \<and> decodedConfiguration S2 = decodedConfiguration S1"
proof -
  let ?ch = "Upsert C True"
  define t0 where "t0 = s\<lparr>configMetadataMap := [], propertiesToRemove := [], sourceFile := Some S\<rparr>"
  define t1 where "t1 = s1\<lparr>configMetadataMap := [], propertiesToRemove := [], sourceFile := Some S1\<rparr>"
  have t0: "configMetadataMap t0 = []" "propertiesToRemove t0 = []"
    and t1: "configMetadataMap t1 = []" "propertiesToRemove t1 = []"
    by (simp_all add: t0_def t1_def)
  from assms have "changePropertiesTransformer ?ch t0 S = Inr (S1, s1)"
    by (simp add: addOrUpdateProperties_def t0_def)
  then obtain ps m where enc: "createPropertyAssignments C = Inr ps"
    and seed: "buildMetadataFromConfig (ObjectLiteralExpression ps) [] [] [] = Inr m"
    and vis: "visitEachChild ?ch (t0\<lparr>configMetadataMap := m\<rparr>) S = Inr (S1, s1)"
    unfolding changePropertiesTransformer_def t0 by (auto split: sum.splits)
  have no: "\<not> readsExisting ?ch" by simp
  from visit_overwrite(2) [OF no, rule_format, OF vis]
  have "visitEachChild ?ch (t1\<lparr>configMetadataMap := m\<rparr>) S1 = Inr (S1, t1\<lparr>configMetadataMap := m\<rparr>)"
    by simp
  then have "changePropertiesTransformer ?ch t1 S1 = Inr (S1, t1\<lparr>configMetadataMap := m\<rparr>)"
    unfolding changePropertiesTransformer_def t1 using enc seed by simp
  then have "addOrUpdateProperties s1 S1 C True = Inr (S1, t1\<lparr>configMetadataMap := m\<rparr>)"
    by (simp add: addOrUpdateProperties_def t1_def)
  then show ?thesis by simp
qed

theorem overwrite_idempotent_witness:
  "addOrUpdateProperties initialState (exampleFile configAB) newB True
     = Inr (exampleFile (ObjectLiteralExpression
               [PropertyAssignment ''b'' (ObjectLiteralExpression [PropertyAssignment ''x'' (NumericLiteral ''9'')])]),
            \<lparr>configMetadataMap = [(''b'', JMap [(''x'', JNumber (JSNumber ''9''))])],
             propertiesToRemove = [], sourceFile = Some (exampleFile configAB)\<rparr>)
   \<and> (\<exists>S2 s2. addOrUpdateProperties
          \<lparr>configMetadataMap = [(''b'', JMap [(''x'', JNumber (JSNumber ''9''))])],
             propertiesToRemove = [], sourceFile = Some (exampleFile configAB)\<rparr>
          (exampleFile (ObjectLiteralExpression
               [PropertyAssignment ''b'' (ObjectLiteralExpression [PropertyAssignment ''x'' (NumericLiteral ''9'')])]))
          newB True = Inr (S2, s2)
        \<and> S2 = exampleFile (ObjectLiteralExpression
               [PropertyAssignment ''b'' (ObjectLiteralExpression [PropertyAssignment ''x'' (NumericLiteral ''9'')])])
        \<and> decodedConfiguration S2 = decodedConfiguration (exampleFile (ObjectLiteralExpression
               [PropertyAssignment ''b'' (ObjectLiteralExpression [PropertyAssignment ''x'' (NumericLiteral ''9'')])])))"
proof -
  have h: "addOrUpdateProperties initialState (exampleFile configAB) newB True
     = Inr (exampleFile (ObjectLiteralExpression
               [PropertyAssignment ''b'' (ObjectLiteralExpression [PropertyAssignment ''x'' (NumericLiteral ''9'')])]),
            \<lparr>configMetadataMap = [(''b'', JMap [(''x'', JNumber (JSNumber ''9''))])],
             propertiesToRemove = [], sourceFile = Some (exampleFile configAB)\<rparr>)"
    by (simp add: eval_defs example_defs)
  from overwrite_idempotent [OF h] h show ?thesis by blast
qed


text \<open>
  C1, as stated, fails: with \<^verbatim>\<open>overwrite = true\<close> the existing configuration is not read
  at all (the guard of line 141), so the key \<^verbatim>\<open>a\<close> is not preserved. On the file
  \<^verbatim>\<open>export default defineConfig({a: 1, b: {x: 1, y: 2}})\<close> the result decodes to
  \<^verbatim>\<open>{b: {x: 9}}\<close>, not to \<^verbatim>\<open>{a: 1, b: {x: 9}}\<close>.
\<close>

theorem overwrite_drops_absent_keys_counterexample:
  "decodedConfiguration (exampleFile configAB) = Some decodedAB
   \<and> addOrUpdateProperties initialState (exampleFile configAB) newB True
     = Inr (exampleFile (ObjectLiteralExpression
               [PropertyAssignment ''b'' (ObjectLiteralExpression [PropertyAssignment ''x'' (NumericLiteral ''9'')])]),
            \<lparr>configMetadataMap = [(''b'', JMap [(''x'', JNumber (JSNumber ''9''))])],
             propertiesToRemove = [], sourceFile = Some (exampleFile configAB)\<rparr>)
   \<and> decodedConfiguration (exampleFile (ObjectLiteralExpression
               [PropertyAssignment ''b'' (ObjectLiteralExpression [PropertyAssignment ''x'' (NumericLiteral ''9'')])]))
      = Some [(''b'', JMap [(''x'', JNumber (JSNumber ''9''))])]
   \<and> Some [(''b'', JMap [(''x'', JNumber (JSNumber ''9''))])]
      \<noteq> Some [(''a'', JNumber (JSNumber ''1'')), (''b'', JMap [(''x'', JNumber (JSNumber ''9''))])]"
  by (simp add: eval_defs example_defs)


text \<open>
  C1, amended: for every file whose recognized export decodes to
  \<^verbatim>\<open>{a: 1, b: {x: 1, y: 2}}\<close>, \<^verbatim>\<open>addOrUpdateProperties\<close> with \<^verbatim>\<open>{b: {x: 9}}\<close> and
  \<^verbatim>\<open>overwrite = true\<close> returns a file whose recognized export decodes to \<^verbatim>\<open>{b: {x: 9}}\<close>: the
  new configuration replaces the whole existing one.
\<close>

theorem overwrite_replaces_configuration:
  assumes "decodedConfiguration file = Some decodedAB"
  shows "\<exists>file' this'. addOrUpdateProperties this file newB True = Inr (file', this')
           \<and> decodedConfiguration file' = Some [(''b'', JMap [(''x'', JNumber (JSNumber ''9''))])]"
proof -
  let ?ch = "Upsert newB True"
  let ?m = "[(''b'', JMap [(''x'', JNumber (JSNumber ''9''))])]"
  define t0 where "t0 = this\<lparr>configMetadataMap := [], propertiesToRemove := [], sourceFile := Some file\<rparr>"
  have t0: "configMetadataMap t0 = []" "propertiesToRemove t0 = []"
    by (simp_all add: t0_def)
  from assms obtain root where rec: "recognizedExport file = Some root"
    by (auto simp: decodedConfiguration_def split: option.splits)
  have m: "if readsExisting ?ch
            then buildMetadataFromConfig root (configMetadataMap (t0\<lparr>configMetadataMap := ?m\<rparr>))
                   (propertiesToRemove (t0\<lparr>configMetadataMap := ?m\<rparr>)) [] = Inr ?m
            else ?m = configMetadataMap (t0\<lparr>configMetadataMap := ?m\<rparr>)"
    by simp
  have enc: "createPropertyAssignments ?m = Inr [PropertyAssignment ''b''
       (ObjectLiteralExpression [PropertyAssignment ''x'' (NumericLiteral ''9'')])]"
    by simp
  from transform_single_export [OF rec m enc]
  obtain file' where v: "visitEachChild ?ch (t0\<lparr>configMetadataMap := ?m\<rparr>) file
        = Inr (file', t0\<lparr>configMetadataMap := ?m\<rparr>)"
    and r: "recognizedExport file' = Some (ObjectLiteralExpression [PropertyAssignment ''b''
       (ObjectLiteralExpression [PropertyAssignment ''x'' (NumericLiteral ''9'')])])"
    by auto
  have seed: "createPropertyAssignments newB = Inr [PropertyAssignment ''b''
       (ObjectLiteralExpression [PropertyAssignment ''x'' (NumericLiteral ''9'')])]"
    "buildMetadataFromConfig (ObjectLiteralExpression [PropertyAssignment ''b''
       (ObjectLiteralExpression [PropertyAssignment ''x'' (NumericLiteral ''9'')])]) [] [] [] = Inr ?m"
    by (simp_all add: eval_defs example_defs)
  have "changePropertiesTransformer ?ch t0 file = Inr (file', t0\<lparr>configMetadataMap := ?m\<rparr>)"
    unfolding changePropertiesTransformer_def t0 using seed v by simp
  then have "addOrUpdateProperties this file newB True = Inr (file', t0\<lparr>configMetadataMap := ?m\<rparr>)"
    by (simp add: addOrUpdateProperties_def t0_def)
  moreover have "decodedConfiguration file' = Some ?m"
    using r by (simp add: eval_defs)
  ultimately show ?thesis by blast
qed

theorem overwrite_replaces_configuration_witness:
  "decodedConfiguration (exampleFile configAB) = Some decodedAB
   \<and> (\<exists>file' this'. addOrUpdateProperties initialState (exampleFile configAB) newB True = Inr (file', this')
           \<and> decodedConfiguration file' = Some [(''b'', JMap [(''x'', JNumber (JSNumber ''9''))])])"
  using overwrite_replaces_configuration [OF decoded_exampleFile, of initialState] decoded_exampleFile
  by blast


subsection \<open>Reading a new configuration\<close>

text \<open>
  Turning a plain new configuration into an object literal and reading that into an empty
  metadata map never fails.
\<close>

lemma devServerInitializer_not_call:
  "\<not> isCallExpression init \<Longrightarrow> devServerInitializer assignmentName init = Inr init"
  by (cases init) (simp_all add: devServerInitializer_def)

lemma forEachProperty_fresh_key:
  assumes nc: "\<not> isCallExpression init"
    and fresh: "assignmentName \<notin> fst ` set M"
    and child: "\<And>q. isObjectLiteralExpression init \<Longrightarrow> \<exists>c. buildMetadataFromConfig init [] R q = Inr c"
    and rest: "\<And>M'. fst ` set M' \<subseteq> insert assignmentName (fst ` set M) \<Longrightarrow> \<exists>m. forEachProperty ps M' R p = Inr m"
  shows "\<exists>m. forEachProperty (PropertyAssignment assignmentName init # ps) M R p = Inr m"
proof (cases "propertyPathOf p assignmentName \<in> set R")
  case True
  then show ?thesis using rest [of M] by auto
next
  case False
  from fresh have none: "map_of M assignmentName = None" by (simp add: map_of_eq_None_iff)
  show ?thesis
  proof (cases "isObjectLiteralExpression init")
    case True
    then obtain ps0 where init: "init = ObjectLiteralExpression ps0" by (cases init) auto
    from child [OF True] obtain c where
      c: "buildMetadataFromConfig init [] R (propertyPathOf p assignmentName) = Inr c" by blast
    have "\<exists>m. forEachProperty ps (Map_set M assignmentName (JMap c)) R p = Inr m"
      by (rule rest) (auto simp: dom_update)
    then show ?thesis
      using False none c devServerInitializer_not_call [OF nc, of assignmentName]
      by (simp add: stepFor_def init)
  next
    case no: False
    have "\<exists>m. forEachProperty ps (Map_set M assignmentName (fromLiteralToPrimitive init)) R p = Inr m"
      by (rule rest) (auto simp: dom_update)
    then show ?thesis
      using False none no devServerInitializer_not_call [OF nc, of assignmentName]
      by (cases init) (simp_all add: stepFor_def)
  qed
qed

lemma seed_plain:
  "plainValue v \<longrightarrow>
     (\<exists>init. createPropertyAssignment key v = Inr (PropertyAssignment key init) \<and> \<not> isCallExpression init
        \<and> (\<forall>R q. isObjectLiteralExpression init \<longrightarrow> (\<exists>c. buildMetadataFromConfig init [] R q = Inr c)))"
  "plainEntries es \<longrightarrow>
     (\<exists>ps. createPropertyAssignments es = Inr ps
        \<and> (\<forall>M R q. fst ` set M \<inter> fst ` set es = {} \<longrightarrow> (\<exists>m. forEachProperty ps M R q = Inr m)))"
proof (induction key v and es rule: createPropertyAssignment_createPropertyAssignments.induct)
  case (5 key entries)
  show ?case
  proof
    assume "plainValue (JObject entries)"
    with 5 obtain ps where ps: "createPropertyAssignments entries = Inr ps"
      and run: "\<And>M R q. fst ` set M \<inter> fst ` set entries = {} \<Longrightarrow> \<exists>m. forEachProperty ps M R q = Inr m"
      by auto
    have "\<exists>c. buildMetadataFromConfig (ObjectLiteralExpression ps) [] R q = Inr c" for R q
      using run [of "[]" R q] by simp
    with ps show "\<exists>init. createPropertyAssignment key (JObject entries) = Inr (PropertyAssignment key init)
        \<and> \<not> isCallExpression init
        \<and> (\<forall>R q. isObjectLiteralExpression init \<longrightarrow> (\<exists>c. buildMetadataFromConfig init [] R q = Inr c))"
      by simp
  qed
next
  case (8 configKey configValue entries)
  show ?case
  proof
    assume pl: "plainEntries ((configKey, configValue) # entries)"
    then have k: "configKey \<notin> fst ` set entries" and pv: "plainValue configValue"
      and pe: "plainEntries entries" by simp_all
    from 8(1) pv obtain init where
      i1: "createPropertyAssignment configKey configValue = Inr (PropertyAssignment configKey init)"
      and i2: "\<not> isCallExpression init"
      and i3: "\<And>R q. isObjectLiteralExpression init \<Longrightarrow> \<exists>c. buildMetadataFromConfig init [] R q = Inr c"
      by blast
    from 8(2) [OF i1] pe obtain ps where
      p1: "createPropertyAssignments entries = Inr ps"
      and p2: "\<And>M R q. fst ` set M \<inter> fst ` set entries = {} \<Longrightarrow> \<exists>m. forEachProperty ps M R q = Inr m"
      by blast
    have "\<exists>m. forEachProperty (PropertyAssignment configKey init # ps) M R q = Inr m"
      if d: "fst ` set M \<inter> fst ` set ((configKey, configValue) # entries) = {}" for M R q
    proof (rule forEachProperty_fresh_key [OF i2])
      show "configKey \<notin> fst ` set M" using d by auto
      show "\<exists>c. buildMetadataFromConfig init [] R q' = Inr c" if "isObjectLiteralExpression init" for q'
        using i3 that by blast
      show "\<exists>m. forEachProperty ps M' R q = Inr m" if "fst ` set M' \<subseteq> insert configKey (fst ` set M)" for M'
      proof (rule p2)
        from d have "fst ` set M \<inter> fst ` set entries = {}" by auto
        with that k show "fst ` set M' \<inter> fst ` set entries = {}" by blast
      qed
    qed
    then show "\<exists>ps. createPropertyAssignments ((configKey, configValue) # entries) = Inr ps
        \<and> (\<forall>M R q. fst ` set M \<inter> fst ` set ((configKey, configValue) # entries) = {}
              \<longrightarrow> (\<exists>m. forEachProperty ps M R q = Inr m))"
      using i1 p1 by simp
  qed
qed simp_all

lemma seed_plain_config:
  assumes "plainEntries newConfig"
  obtains ps m where "createPropertyAssignments newConfig = Inr ps"
    "buildMetadataFromConfig (ObjectLiteralExpression ps) [] [] [] = Inr m"
proof -
  from seed_plain(2) [of newConfig] assms obtain ps where
    ps: "createPropertyAssignments newConfig = Inr ps"
    and run: "\<And>M R q. fst ` set M \<inter> fst ` set newConfig = {} \<Longrightarrow> \<exists>m. forEachProperty ps M R q = Inr m"
    by blast
  from run [of "[]" "[]" "[]"] obtain m where "forEachProperty ps [] [] [] = Inr m" by auto
  with ps that show ?thesis by simp
qed


subsection \<open>Files without a recognized export\<close>

lemma visitExportAssignment_fails:
  assumes "readsExisting change" "\<not> exportsObjectLiteral e"
  shows "\<exists>err. visitExportAssignment change this isExportEquals e = Inl err"
proof (cases "calleeAndArguments e")
  case None
  then show ?thesis by (simp add: visitExportAssignment_def)
next
  case (Some ca)
  obtain callee args where ca: "ca = (callee, args)" by (cases ca)
  show ?thesis
  proof (cases args)
    case Nil
    with Some ca assms show ?thesis by (simp add: visitExportAssignment_def)
  next
    case (Cons root rest)
    with Some ca assms have "\<not> isObjectLiteralExpression root"
      by (simp add: exportsObjectLiteral_def)
    then have "buildMetadataFromConfig root (configMetadataMap this) (propertiesToRemove this) []
                 = Inl NotIterable"
      by (cases root) simp_all
    with Some ca Cons assms show ?thesis by (simp add: visitExportAssignment_def)
  qed
qed

text \<open>
  C2, as stated, fails: the code has no check for the export and no error of its own. A
  file with no export assignment (here a file that is one import) is returned unchanged by
  both entry points. And the cast of line 137 lets a \<^verbatim>\<open>new\<close> expression through: the file
  \<^verbatim>\<open>export default new Foo({a: 1, b: 2})\<close> has no default-exported call, yet
  \<^verbatim>\<open>removeProperties\<close> with the path \<^verbatim>\<open>b\<close> returns \<^verbatim>\<open>export default Foo({a: 1})\<close>.
\<close>

theorem missing_export_counterexample:
  "recognizedExport [OtherNode ''ImportDeclaration'' []] = None
   \<and> exportAssignmentsOf [OtherNode ''ImportDeclaration'' []] = []
   \<and> removeProperties initialState [OtherNode ''ImportDeclaration'' []] [''b.x'']
     = Inr ([OtherNode ''ImportDeclaration'' []],
            \<lparr>configMetadataMap = [], propertiesToRemove = [''b.x''],
             sourceFile = Some [OtherNode ''ImportDeclaration'' []]\<rparr>)
   \<and> addOrUpdateProperties initialState [OtherNode ''ImportDeclaration'' []] newB False
     = Inr ([OtherNode ''ImportDeclaration'' []],
            \<lparr>configMetadataMap = [(''b'', JMap [(''x'', JNumber (JSNumber ''9''))])], propertiesToRemove = [],
             sourceFile = Some [OtherNode ''ImportDeclaration'' []]\<rparr>)
   \<and> recognizedExport
        [ExportAssignment False (NewExpression (Identifier ''Foo'')
           (Some [ObjectLiteralExpression [PropertyAssignment ''a'' (NumericLiteral ''1''),
                                           PropertyAssignment ''b'' (NumericLiteral ''2'')]]))] = None
   \<and> removeProperties initialState
        [ExportAssignment False (NewExpression (Identifier ''Foo'')
           (Some [ObjectLiteralExpression [PropertyAssignment ''a'' (NumericLiteral ''1''),
                                           PropertyAssignment ''b'' (NumericLiteral ''2'')]]))] [''b'']
     = Inr ([ExportAssignment False (CallExpression (Identifier ''Foo'')
               [ObjectLiteralExpression [PropertyAssignment ''a'' (NumericLiteral ''1'')]])],
            \<lparr>configMetadataMap = [(''a'', JNumber (JSNumber ''1''))], propertiesToRemove = [''b''],
             sourceFile = Some [ExportAssignment False (NewExpression (Identifier ''Foo'')
               (Some [ObjectLiteralExpression [PropertyAssignment ''a'' (NumericLiteral ''1''),
                                               PropertyAssignment ''b'' (NumericLiteral ''2'')]]))]\<rparr>)"
  by (simp add: eval_defs example_defs)

text \<open>
  C2, amended: a file with no export assignment at all is returned unchanged by
  \<^verbatim>\<open>removeProperties\<close>, and by \<^verbatim>\<open>addOrUpdateProperties\<close> for every plain new
  configuration. A file in which some exported expression has no argument list, or has one
  whose first argument is missing or is not an object literal, makes \<^verbatim>\<open>removeProperties\<close> and
  \<^verbatim>\<open>addOrUpdateProperties\<close> without overwrite fail (with the run time's \<^verbatim>\<open>TypeError\<close>), so that
  no text is returned.
\<close>

theorem missing_export:
  "(exportAssignmentsOf file = [] \<longrightarrow>
      (\<exists>this'. removeProperties this file toRemove = Inr (file, this'))
      \<and> (plainEntries newConfig \<longrightarrow>
           (\<exists>this'. addOrUpdateProperties this file newConfig overwrite = Inr (file, this'))))
   \<and> ((isExportEquals, e) \<in> set (exportAssignmentsOf file) \<and> \<not> exportsObjectLiteral e \<longrightarrow>
      (\<exists>err. removeProperties this file toRemove = Inl err)
      \<and> (\<exists>err. addOrUpdateProperties this file newConfig False = Inl err))"
proof (intro conjI impI)
  assume "exportAssignmentsOf file = []"
  then have v: "visitEachChild change t file = Inr (file, t)" for change t
    by (simp add: visit_no_export)
  show "\<exists>this'. removeProperties this file toRemove = Inr (file, this')"
    by (simp add: removeProperties_def changePropertiesTransformer_def v)
  assume "plainEntries newConfig"
  then obtain ps m where "createPropertyAssignments newConfig = Inr ps"
    "buildMetadataFromConfig (ObjectLiteralExpression ps) [] [] [] = Inr m"
    by (rule seed_plain_config)
  then show "\<exists>this'. addOrUpdateProperties this file newConfig overwrite = Inr (file, this')"
    by (simp add: addOrUpdateProperties_def changePropertiesTransformer_def v)
next
  assume a: "(isExportEquals, e) \<in> set (exportAssignmentsOf file) \<and> \<not> exportsObjectLiteral e"
  have f: "\<exists>err. visitEachChild change t file = Inl err" if "readsExisting change" for change t
  proof -
    have "\<exists>err. visitExportAssignment change this isExportEquals e = Inl err" for this
      using visitExportAssignment_fails that a by blast
    from visit_failing_export(2) [OF this, rule_format] a show ?thesis by blast
  qed
  show "\<exists>err. removeProperties this file toRemove = Inl err"
    using f [of Delete] by (simp add: removeProperties_def changePropertiesTransformer_def)
  show "\<exists>err. addOrUpdateProperties this file newConfig False = Inl err"
    using f [of "Upsert newConfig False"]
    by (auto simp: addOrUpdateProperties_def changePropertiesTransformer_def split: sum.splits)
qed

theorem missing_export_witness:
  "exportAssignmentsOf [OtherNode ''ImportDeclaration'' []] = []
   \<and> plainEntries newB
   \<and> (\<exists>this'. removeProperties initialState [OtherNode ''ImportDeclaration'' []] [''b.x'']
         = Inr ([OtherNode ''ImportDeclaration'' []], this'))
   \<and> (\<exists>this'. addOrUpdateProperties initialState [OtherNode ''ImportDeclaration'' []] newB True
         = Inr ([OtherNode ''ImportDeclaration'' []], this'))
   \<and> (False, CallExpression (Identifier ''defineConfig'') [Identifier ''config''])
        \<in> set (exportAssignmentsOf (exampleFile (Identifier ''config'')))
   \<and> \<not> exportsObjectLiteral (CallExpression (Identifier ''defineConfig'') [Identifier ''config''])
   \<and> (\<exists>err. removeProperties initialState (exampleFile (Identifier ''config'')) [''b.x''] = Inl err)
   \<and> (\<exists>err. addOrUpdateProperties initialState (exampleFile (Identifier ''config'')) newB False = Inl err)"
proof -
  have h1: "exportAssignmentsOf [OtherNode ''ImportDeclaration'' []] = []" by simp
  have h2: "plainEntries newB" by (simp add: newB_def)
  have h3: "(False, CallExpression (Identifier ''defineConfig'') [Identifier ''config''])
        \<in> set (exportAssignmentsOf (exampleFile (Identifier ''config'')))"
    by (simp add: exampleFile_def)
  have h4: "\<not> exportsObjectLiteral (CallExpression (Identifier ''defineConfig'') [Identifier ''config''])"
    by (simp add: exportsObjectLiteral_def)
  from missing_export [of "[OtherNode ''ImportDeclaration'' []]" initialState "[''b.x'']" newB True]
    missing_export [of "exampleFile (Identifier ''config'')" initialState "[''b.x'']" newB _ False
       "CallExpression (Identifier ''defineConfig'') [Identifier ''config'']"]
    h1 h2 h3 h4
  show ?thesis by blast
qed


subsection \<open>Unsupported property values\<close>

text \<open>
  C7, as stated, fails: the code has no error for an unsupported value. The last line of
  \<^verbatim>\<open>fromLiteralToPrimitive\<close> casts every remaining node to a string literal and returns its
  \<^verbatim>\<open>text\<close>. An identifier as the value of \<^verbatim>\<open>baseUrl\<close> is read as the string of its name,
  and \<^verbatim>\<open>removeProperties\<close> writes it back as a string literal.
\<close>

theorem unsupported_identifier_counterexample:
  "\<not> supportedShape ''baseUrl'' (Identifier ''url'')
   \<and> fromLiteralToPrimitive (Identifier ''url'') = JString ''url''
   \<and> removeProperties initialState
        (exampleFile (ObjectLiteralExpression [PropertyAssignment ''baseUrl'' (Identifier ''url'')])) []
     = Inr (exampleFile (ObjectLiteralExpression [PropertyAssignment ''baseUrl'' (StringLiteral ''url'')]),
            \<lparr>configMetadataMap = [(''baseUrl'', JString ''url'')], propertiesToRemove = [],
             sourceFile = Some (exampleFile
               (ObjectLiteralExpression [PropertyAssignment ''baseUrl'' (Identifier ''url'')]))\<rparr>)"
  by (simp add: eval_defs)


text \<open>
  C7, amended: for every property whose value is not of a supported shape and whose path
  is not to be removed, wherever it stands and whatever the metadata map holds, the loop
  raises no error for the shape. When the map has no value at the property's key (or the
  value \<^verbatim>\<open>undefined\<close>), the \<^verbatim>\<open>text\<close> of the node is stored as a string, and \<^verbatim>\<open>undefined\<close> when the
  node has none; when the map has a primitive there, the property is passed over and its
  value dropped; when the map has a record there, the node is iterated as an object
  literal and the call ends with the run time's \<^verbatim>\<open>TypeError\<close>.
\<close>

theorem unsupported_shape_in_the_loop:
  assumes "\<not> supportedShape assignmentName init"
    and "propertyPathOf parentPrefix assignmentName \<notin> set toRemove"
  shows "forEachProperty (PropertyAssignment assignmentName init # rest) metadataMap toRemove parentPrefix =
     (case Map_get metadataMap assignmentName of
        None \<Rightarrow>
          forEachProperty rest (Map_set metadataMap assignmentName (textOfCast init)) toRemove parentPrefix
      | Some JUndefined \<Rightarrow>
          forEachProperty rest (Map_set metadataMap assignmentName (textOfCast init)) toRemove parentPrefix
      | Some (JMap existing) \<Rightarrow> Inl NotIterable
      | Some _ \<Rightarrow> forEachProperty rest metadataMap toRemove parentPrefix)"
proof -
  from assms(1) have d: "devServerInitializer assignmentName init = Inr init"
    by (cases init) (simp_all add: devServerInitializer_def)
  from assms(1) have n: "\<not> isObjectLiteralExpression init" by (cases init) simp_all
  then have b: "buildMetadataFromConfig init existing toRemove q = Inl NotIterable" for existing q
    by (cases init) simp_all
  from assms(1) have f: "fromLiteralToPrimitive init = textOfCast init"
    by (cases init) (simp_all add: fromLiteralToPrimitive_def textOfCast_def)
  from n have s: "stepFor x init =
     (case x of None \<Rightarrow> Assign (fromLiteralToPrimitive init)
      | Some JUndefined \<Rightarrow> Assign (fromLiteralToPrimitive init)
      | Some (JMap existing) \<Rightarrow> Descend existing
      | Some _ \<Rightarrow> Continue)" for x
    by (cases init) (simp_all add: stepFor_def split: option.splits jsvalue.splits)
  show ?thesis
    using assms(2) by (simp add: d s b f split: option.splits jsvalue.splits)
qed

theorem unsupported_shape_in_the_loop_witness:
  "\<not> supportedShape ''baseUrl'' (Identifier ''url'')
   \<and> propertyPathOf [] ''baseUrl'' \<notin> set []
   \<and> forEachProperty [PropertyAssignment ''baseUrl'' (Identifier ''url'')] [] [] []
        = Inr [(''baseUrl'', JString ''url'')]
   \<and> forEachProperty [PropertyAssignment ''baseUrl'' (Identifier ''url'')]
        [(''baseUrl'', JString ''http://localhost'')] [] []
        = Inr [(''baseUrl'', JString ''http://localhost'')]
   \<and> forEachProperty [PropertyAssignment ''baseUrl'' (Identifier ''url'')]
        [(''baseUrl'', JMap [])] [] []
        = Inl NotIterable"
proof -
  have h: "\<not> supportedShape ''baseUrl'' (Identifier ''url'')" by simp
  have r: "propertyPathOf [] ''baseUrl'' \<notin> set []" by simp
  from unsupported_shape_in_the_loop [OF h r, of "[]" "[]"]
    unsupported_shape_in_the_loop [OF h r, of "[]" "[(''baseUrl'', JString ''http://localhost'')]"]
    unsupported_shape_in_the_loop [OF h r, of "[]" "[(''baseUrl'', JMap [])]"]
  show ?thesis by (simp add: textOfCast_def)
qed


subsection \<open>The order of the positional arguments\<close>

text \<open>
  C8 against the code: \<^verbatim>\<open>createPropertyAssignment\<close> writes the values of the map at
  \<^verbatim>\<open>devServer\<close> in the map's insertion order, which for a new configuration is the order
  in which the caller wrote the fields. For \<^verbatim>\<open>{compiler: 'swc', tsConfig: 'tsconfig.spec.json'}\<close>
  the call is \<^verbatim>\<open>componentDevServer('swc', 'tsconfig.spec.json')\<close>, which the code itself reads
  back with the two values exchanged.
\<close>

theorem devServer_arguments_in_insertion_order:
  "addOrUpdateProperties this (exampleFile (ObjectLiteralExpression []))
      [(''component'', JObject [(''devServer'',
           JObject [(''compiler'', JString ''swc''), (''tsConfig'', JString ''tsconfig.spec.json'')])])] True
   = Inr (exampleFile (ObjectLiteralExpression
            [PropertyAssignment ''component'' (ObjectLiteralExpression
               [PropertyAssignment ''devServer''
                  (CallExpression (Identifier ''componentDevServer'')
                     [StringLiteral ''swc'', StringLiteral ''tsconfig.spec.json''])])]),
          this\<lparr>configMetadataMap := [(''component'', JMap [(''devServer'',
               JMap [(''compiler'', JString ''swc''), (''tsConfig'', JString ''tsconfig.spec.json'')])])],
            propertiesToRemove := [], sourceFile := Some (exampleFile (ObjectLiteralExpression []))\<rparr>)
   \<and> decodedConfiguration (exampleFile (ObjectLiteralExpression
            [PropertyAssignment ''component'' (ObjectLiteralExpression
               [PropertyAssignment ''devServer''
                  (CallExpression (Identifier ''componentDevServer'')
                     [StringLiteral ''swc'', StringLiteral ''tsconfig.spec.json''])])]))
     = Some [(''component'', JMap [(''devServer'',
               JMap [(''tsConfig'', JString ''swc''), (''compiler'', JString ''tsconfig.spec.json'')])])]"
  by (simp add: eval_defs)


subsection \<open>Removing properties\<close>

text \<open>
  One turn of the loop that ends well took one of its four ways.
\<close>

lemma forEachProperty_Cons_Inr:
  assumes "forEachProperty (PropertyAssignment assignmentName init # rest) M R p = Inr D"
  obtains (removed) "propertyPathOf p assignmentName \<in> set R" "forEachProperty rest M R p = Inr D"
  | (continue) initializer where "propertyPathOf p assignmentName \<notin> set R"
      "devServerInitializer assignmentName init = Inr initializer"
      "stepFor (Map_get M assignmentName) initializer = Continue"
      "forEachProperty rest M R p = Inr D"
  | (descend) initializer c c' where "propertyPathOf p assignmentName \<notin> set R"
      "devServerInitializer assignmentName init = Inr initializer"
      "stepFor (Map_get M assignmentName) initializer = Descend c"
      "buildMetadataFromConfig initializer c R (propertyPathOf p assignmentName) = Inr c'"
      "forEachProperty rest (Map_set M assignmentName (JMap c')) R p = Inr D"
  | (assign) initializer v where "propertyPathOf p assignmentName \<notin> set R"
      "devServerInitializer assignmentName init = Inr initializer"
      "stepFor (Map_get M assignmentName) initializer = Assign v"
      "forEachProperty rest (Map_set M assignmentName v) R p = Inr D"
  using assms by (auto split: if_splits sum.splits step.splits)

text \<open>
  Reading a configuration with paths to remove gives what reading it without them gives,
  less the entries at those paths. The two runs go through the properties side by side:
  the map of the run that removes is the pruned map of the run that does not.
\<close>

lemma map_of_pruneEntries:
  "map_of (pruneEntries R p M) k =
     (if propertyPathOf p k \<in> set R then None
      else map_option (pruneValue R (propertyPathOf p k)) (map_of M k))"
  by (induction M) auto

lemma pruneEntries_update_kept:
  "propertyPathOf p k \<notin> set R \<Longrightarrow>
   pruneEntries R p (AList.update k v M)
     = AList.update k (pruneValue R (propertyPathOf p k) v) (pruneEntries R p M)"
  by (induction M) auto

lemma pruneEntries_update_removed:
  "propertyPathOf p k \<in> set R \<Longrightarrow> pruneEntries R p (AList.update k v M) = pruneEntries R p M"
  by (induction M) auto

lemma pruneValue_primitive [simp]:
  "pruneValue R q (fromLiteralToPrimitive e) = fromLiteralToPrimitive e"
  by (cases e) (simp_all add: fromLiteralToPrimitive_def)

lemma stepFor_pruned:
  "stepFor (map_option (pruneValue R q) x) initializer =
     (case stepFor x initializer of
        Continue \<Rightarrow> Continue
      | Descend c \<Rightarrow> Descend (pruneEntries R q c)
      | Assign v \<Rightarrow> Assign v)"
proof (cases x)
  case None
  then show ?thesis by (cases initializer) (simp_all add: stepFor_def)
next
  case (Some v)
  then show ?thesis by (cases v; cases initializer) (simp_all add: stepFor_def)
qed

lemma stepFor_Assign: "stepFor x initializer = Assign v \<Longrightarrow> v = fromLiteralToPrimitive initializer"
  by (auto simp: stepFor_def split: if_splits option.splits jsvalue.splits expression.splits)

lemma prune_simulation:
  "buildMetadataFromConfig config M R0 p = Inr D \<longrightarrow> R0 = [] \<longrightarrow>
     buildMetadataFromConfig config (pruneEntries R p M) R p = Inr (pruneEntries R p D)"
  "forEachProperty ps M R0 p = Inr D \<longrightarrow> R0 = [] \<longrightarrow>
     forEachProperty ps (pruneEntries R p M) R p = Inr (pruneEntries R p D)"
proof (induction config M R0 p and ps M R0 p arbitrary: D and D
        rule: buildMetadataFromConfig_forEachProperty.induct)
  case (1 properties metadataMap propertiesToRemove parentPrefix)
  then show ?case by simp
next
  case (3 metadataMap propertiesToRemove parentPrefix)
  then show ?case by simp
next
  case (4 assignmentName init rest M R0 p)
  let ?q = "propertyPathOf p assignmentName"
  show ?case
  proof (intro impI)
    assume run: "forEachProperty (PropertyAssignment assignmentName init # rest) M R0 p = Inr D"
      and R0: "R0 = []"
    from run show "forEachProperty (PropertyAssignment assignmentName init # rest) (pruneEntries R p M) R p
             = Inr (pruneEntries R p D)"
    proof (cases rule: forEachProperty_Cons_Inr)
      case removed
      with R0 show ?thesis by simp
    next
      case (continue initializer)
      from 4(2) [OF continue(1,2,3)] continue(4) R0
      have rest: "forEachProperty rest (pruneEntries R p M) R p = Inr (pruneEntries R p D)" by simp
      show ?thesis
      proof (cases "?q \<in> set R")
        case True
        with rest show ?thesis by simp
      next
        case False
        with rest continue show ?thesis
          by (simp add: map_of_pruneEntries stepFor_pruned)
      qed
    next
      case (descend initializer c c')
      from 4(3) [OF descend(1,2,3)] descend(4) R0
      have child: "buildMetadataFromConfig initializer (pruneEntries R ?q c) R ?q = Inr (pruneEntries R ?q c')"
        by simp
      from 4(4) [OF descend(1,2,3,4)] descend(5) R0
      have rest: "forEachProperty rest (pruneEntries R p (Map_set M assignmentName (JMap c'))) R p
                    = Inr (pruneEntries R p D)" by simp
      show ?thesis
      proof (cases "?q \<in> set R")
        case True
        with rest show ?thesis by (simp add: pruneEntries_update_removed)
      next
        case False
        with rest child descend show ?thesis
          by (simp add: map_of_pruneEntries stepFor_pruned pruneEntries_update_kept)
      qed
    next
      case (assign initializer v)
      from 4(5) [OF assign(1,2,3)] assign(4) R0
      have rest: "forEachProperty rest (pruneEntries R p (Map_set M assignmentName v)) R p
                    = Inr (pruneEntries R p D)" by simp
      from assign(3) have v: "v = fromLiteralToPrimitive initializer" by (rule stepFor_Assign)
      show ?thesis
      proof (cases "?q \<in> set R")
        case True
        with rest show ?thesis by (simp add: pruneEntries_update_removed)
      next
        case False
        with rest assign v show ?thesis
          by (simp add: map_of_pruneEntries stepFor_pruned pruneEntries_update_kept)
      qed
    qed
  qed
qed simp_all


lemma decodedConfiguration_SomeD:
  assumes "decodedConfiguration file = Some D"
  obtains root where "recognizedExport file = Some root" "buildMetadataFromConfig root [] [] [] = Inr D"
  using assms by (auto simp: decodedConfiguration_def split: option.splits sum.splits)

lemma removeProperties_decoded:
  assumes dec: "decodedConfiguration file = Some D"
    and enc: "createPropertyAssignments (pruneEntries toRemove [] D) = Inr ps"
  shows "\<exists>file' this'. removeProperties this file toRemove = Inr (file', this')
           \<and> recognizedExport file' = Some (ObjectLiteralExpression ps)"
proof -
  define t0 where "t0 = this\<lparr>configMetadataMap := [], propertiesToRemove := toRemove,
                              sourceFile := Some file\<rparr>"
  have t0: "configMetadataMap t0 = []" "propertiesToRemove t0 = toRemove"
    by (simp_all add: t0_def)
  from dec obtain root where rec: "recognizedExport file = Some root"
    and run: "buildMetadataFromConfig root [] [] [] = Inr D"
    by (rule decodedConfiguration_SomeD)
  from prune_simulation(1) [rule_format, OF run refl, of toRemove]
  have "buildMetadataFromConfig root [] toRemove [] = Inr (pruneEntries toRemove [] D)" by simp
  then have m: "if readsExisting Delete
            then buildMetadataFromConfig root (configMetadataMap t0) (propertiesToRemove t0) []
                   = Inr (pruneEntries toRemove [] D)
            else pruneEntries toRemove [] D = configMetadataMap t0"
    by (simp add: t0)
  from transform_single_export [OF rec m enc]
  obtain file' where "visitEachChild Delete t0 file
        = Inr (file', t0\<lparr>configMetadataMap := pruneEntries toRemove [] D\<rparr>)"
    and r: "recognizedExport file' = Some (ObjectLiteralExpression ps)"
    by auto
  then have "removeProperties this file toRemove
        = Inr (file', t0\<lparr>configMetadataMap := pruneEntries toRemove [] D\<rparr>)"
    by (simp add: removeProperties_def changePropertiesTransformer_def t0_def)
  with r show ?thesis by blast
qed

lemma decoded_exampleBX: "decodedConfiguration (exampleFile configBX) = Some decodedBX"
  by (simp add: eval_defs configBX_def decodedBX_def)

text \<open>
  C5: for every file whose recognized export decodes to \<^verbatim>\<open>{a: 1, b: {x: 1, y: 2}}\<close>,
  \<^verbatim>\<open>removeProperties\<close> with the path \<^verbatim>\<open>b.x\<close> returns a file whose recognized export decodes to
  \<^verbatim>\<open>{a: 1, b: {y: 2}}\<close>: the leaf \<^verbatim>\<open>b.x\<close> is gone, its sibling \<^verbatim>\<open>b.y\<close> and the entry \<^verbatim>\<open>a\<close>
  are as they were.
\<close>

theorem remove_leaf_keeps_siblings:
  assumes "decodedConfiguration file = Some decodedAB"
  shows "\<exists>file' this'. removeProperties this file [''b.x''] = Inr (file', this')
           \<and> decodedConfiguration file'
               = Some [(''a'', JNumber (JSNumber ''1'')), (''b'', JMap [(''y'', JNumber (JSNumber ''2''))])]"
proof -
  have "createPropertyAssignments (pruneEntries [''b.x''] [] decodedAB)
          = Inr [PropertyAssignment ''a'' (NumericLiteral ''1''),
                 PropertyAssignment ''b'' (ObjectLiteralExpression
                    [PropertyAssignment ''y'' (NumericLiteral ''2'')])]"
    by (simp add: decodedAB_def propertyPathOf_def)
  from removeProperties_decoded [OF assms this]
  obtain file' this' where "removeProperties this file [''b.x''] = Inr (file', this')"
    and "recognizedExport file' = Some (ObjectLiteralExpression
                [PropertyAssignment ''a'' (NumericLiteral ''1''),
                 PropertyAssignment ''b'' (ObjectLiteralExpression
                    [PropertyAssignment ''y'' (NumericLiteral ''2'')])])"
    by blast
  moreover from this(2) have "decodedConfiguration file'
       = Some [(''a'', JNumber (JSNumber ''1'')), (''b'', JMap [(''y'', JNumber (JSNumber ''2''))])]"
    by (simp add: decodedConfiguration_def propertyPathOf_def devServerInitializer_def stepFor_def
          fromLiteralToPrimitive_def Number_def)
  ultimately show ?thesis by blast
qed

theorem remove_leaf_keeps_siblings_witness:
  "decodedConfiguration (exampleFile configAB) = Some decodedAB
   \<and> (\<exists>file' this'. removeProperties initialState (exampleFile configAB) [''b.x''] = Inr (file', this')
           \<and> decodedConfiguration file'
               = Some [(''a'', JNumber (JSNumber ''1'')), (''b'', JMap [(''y'', JNumber (JSNumber ''2''))])])"
  using remove_leaf_keeps_siblings [OF decoded_exampleFile, of initialState] decoded_exampleFile
  by blast


text \<open>
  C6: for every file whose recognized export decodes to \<^verbatim>\<open>{b: {x: 1}}\<close>, \<^verbatim>\<open>removeProperties\<close>
  with the path \<^verbatim>\<open>b.x\<close> returns a file whose recognized export is \<^verbatim>\<open>{b: {}}\<close>: the key \<^verbatim>\<open>b\<close>
  stays, with an empty object literal, and the configuration is not \<^verbatim>\<open>{}\<close>.
\<close>

theorem remove_all_children_leaves_empty_object:
  assumes "decodedConfiguration file = Some decodedBX"
  shows "\<exists>file' this'. removeProperties this file [''b.x''] = Inr (file', this')
           \<and> recognizedExport file'
               = Some (ObjectLiteralExpression [PropertyAssignment ''b'' (ObjectLiteralExpression [])])
           \<and> decodedConfiguration file' = Some [(''b'', JMap [])]
           \<and> decodedConfiguration file' \<noteq> Some []"
proof -
  have "createPropertyAssignments (pruneEntries [''b.x''] [] decodedBX)
          = Inr [PropertyAssignment ''b'' (ObjectLiteralExpression [])]"
    by (simp add: decodedBX_def propertyPathOf_def)
  from removeProperties_decoded [OF assms this]
  obtain file' this' where "removeProperties this file [''b.x''] = Inr (file', this')"
    and "recognizedExport file' = Some (ObjectLiteralExpression
                [PropertyAssignment ''b'' (ObjectLiteralExpression [])])"
    by blast
  moreover from this(2) have "decodedConfiguration file' = Some [(''b'', JMap [])]"
    by (simp add: decodedConfiguration_def propertyPathOf_def devServerInitializer_def stepFor_def)
  ultimately show ?thesis by auto
qed

theorem remove_all_children_leaves_empty_object_witness:
  "decodedConfiguration (exampleFile configBX) = Some decodedBX
   \<and> (\<exists>file' this'. removeProperties initialState (exampleFile configBX) [''b.x''] = Inr (file', this')
           \<and> recognizedExport file'
               = Some (ObjectLiteralExpression [PropertyAssignment ''b'' (ObjectLiteralExpression [])])
           \<and> decodedConfiguration file' = Some [(''b'', JMap [])]
           \<and> decodedConfiguration file' \<noteq> Some [])"
  using remove_all_children_leaves_empty_object [OF decoded_exampleBX, of initialState] decoded_exampleBX
  by blast


subsection \<open>Merging\<close>

text \<open>
  Two facts about the loop, for any properties and any paths to remove. A primitive in the
  map stays: the loop passes over every property at its key. And a run from a map in which
  a primitive stands first at a key \<open>k0\<close> goes as the run from the map without it, with
  that entry kept first.
\<close>

lemma stepFor_continues: "continues v \<Longrightarrow> stepFor (Some v) initializer = Continue"
  by (cases v) (simp_all add: stepFor_def)

lemma map_of_filter_other: "k \<noteq> k0 \<Longrightarrow> map_of (filter (\<lambda>entry. fst entry \<noteq> k0) M) k = map_of M k"
  by (induction M) auto

lemma filter_update_other:
  "k \<noteq> k0 \<Longrightarrow> filter (\<lambda>entry. fst entry \<noteq> k0) (AList.update k v M)
      = AList.update k v (filter (\<lambda>entry. fst entry \<noteq> k0) M)"
  by (induction M) auto

lemma filter_update_same:
  "filter (\<lambda>entry. fst entry \<noteq> k0) (AList.update k0 v M) = filter (\<lambda>entry. fst entry \<noteq> k0) M"
  by (induction M) auto

lemma primitive_persists:
  "buildMetadataFromConfig config M R p = Inr D \<longrightarrow> map_of M k = Some v \<longrightarrow> continues v
     \<longrightarrow> map_of D k = Some v"
  "forEachProperty ps M R p = Inr D \<longrightarrow> map_of M k = Some v \<longrightarrow> continues v
     \<longrightarrow> map_of D k = Some v"
proof (induction config M R p and ps M R p arbitrary: D and D
        rule: buildMetadataFromConfig_forEachProperty.induct)
  case (4 assignmentName init rest M R p)
  show ?case
  proof (intro impI)
    assume run: "forEachProperty (PropertyAssignment assignmentName init # rest) M R p = Inr D"
      and k: "map_of M k = Some v" and c: "continues v"
    from run show "map_of D k = Some v"
    proof (cases rule: forEachProperty_Cons_Inr)
      case removed
      with 4(1) k c show ?thesis by blast
    next
      case (continue initializer)
      with 4(2) k c show ?thesis by blast
    next
      case (descend initializer c0 c')
      with k c have "assignmentName \<noteq> k" by (auto simp: stepFor_continues)
      with k have "map_of (Map_set M assignmentName (JMap c')) k = Some v" by (simp add: update_conv')
      with 4(4) [OF descend(1,2,3,4)] descend(5) c show ?thesis by blast
    next
      case (assign initializer w)
      with k c have "assignmentName \<noteq> k" by (auto simp: stepFor_continues)
      with k have "map_of (Map_set M assignmentName w) k = Some v" by (simp add: update_conv')
      with 4(5) [OF assign(1,2,3)] assign(4) c show ?thesis by blast
    qed
  qed
qed simp_all

lemma shadow_simulation:
  "buildMetadataFromConfig config M R p = Inr D \<longrightarrow> continues v0
     \<longrightarrow> buildMetadataFromConfig config (shadowed k0 v0 M) R p = Inr (shadowed k0 v0 D)"
  "forEachProperty ps M R p = Inr D \<longrightarrow> continues v0
     \<longrightarrow> forEachProperty ps (shadowed k0 v0 M) R p = Inr (shadowed k0 v0 D)"
proof (induction config M R p and ps M R p arbitrary: D and D
        rule: buildMetadataFromConfig_forEachProperty.induct)
  case (4 assignmentName init rest M R p)
  show ?case
  proof (intro impI)
    assume run: "forEachProperty (PropertyAssignment assignmentName init # rest) M R p = Inr D"
      and c: "continues v0"
    from run show "forEachProperty (PropertyAssignment assignmentName init # rest) (shadowed k0 v0 M) R p
                     = Inr (shadowed k0 v0 D)"
    proof (cases rule: forEachProperty_Cons_Inr)
      case removed
      with 4(1) c show ?thesis by simp
    next
      case (continue initializer)
      from 4(2) [OF continue(1,2,3)] continue(4) c
      have rest: "forEachProperty rest (shadowed k0 v0 M) R p = Inr (shadowed k0 v0 D)" by blast
      show ?thesis
      proof (cases "assignmentName = k0")
        case True
        with rest continue c show ?thesis by (simp add: shadowed_def stepFor_continues)
      next
        case False
        with rest continue show ?thesis by (simp add: shadowed_def map_of_filter_other)
      qed
    next
      case (descend initializer c0 c')
      from 4(4) [OF descend(1,2,3,4)] descend(5) c
      have rest: "forEachProperty rest (shadowed k0 v0 (Map_set M assignmentName (JMap c'))) R p
                    = Inr (shadowed k0 v0 D)" by blast
      show ?thesis
      proof (cases "assignmentName = k0")
        case True
        with rest descend c show ?thesis
          by (simp add: shadowed_def stepFor_continues filter_update_same)
      next
        case False
        with rest descend show ?thesis
          by (simp add: shadowed_def map_of_filter_other filter_update_other)
      qed
    next
      case (assign initializer w)
      from 4(5) [OF assign(1,2,3)] assign(4) c
      have rest: "forEachProperty rest (shadowed k0 v0 (Map_set M assignmentName w)) R p
                    = Inr (shadowed k0 v0 D)" by blast
      show ?thesis
      proof (cases "assignmentName = k0")
        case True
        with rest assign c show ?thesis
          by (simp add: shadowed_def stepFor_continues filter_update_same)
      next
        case False
        with rest assign show ?thesis
          by (simp add: shadowed_def map_of_filter_other filter_update_other)
      qed
    qed
  qed
qed simp_all


lemma stepFor_cases:
  obtains (continue) v where "x = Some v" "continues v" "stepFor x initializer = Continue"
  | (existing) c where "x = Some (JMap c)" "stepFor x initializer = Descend c"
  | (fresh) "x = None \<or> x = Some JUndefined" "isObjectLiteralExpression initializer"
      "stepFor x initializer = Descend []"
  | (assign) "x = None \<or> x = Some JUndefined" "\<not> isObjectLiteralExpression initializer"
      "stepFor x initializer = Assign (fromLiteralToPrimitive initializer)"
proof (cases x)
  case None
  then show ?thesis using fresh assign by (cases initializer) (simp_all add: stepFor_def)
next
  case (Some v)
  then show ?thesis using continue existing fresh assign
    by (cases v; cases initializer) (simp_all add: stepFor_def)
qed

lemma supported_primitive_continues:
  "supportedShape assignmentName init \<Longrightarrow> \<not> isObjectLiteralExpression init
     \<Longrightarrow> assignmentName \<noteq> ''devServer'' \<Longrightarrow> continues (fromLiteralToPrimitive init)"
  by (cases init) (simp_all add: fromLiteralToPrimitive_def)

lemma devServerInitializer_other_key:
  "assignmentName \<noteq> ''devServer'' \<Longrightarrow> devServerInitializer assignmentName init = Inr init"
  by (simp add: devServerInitializer_def)

lemma merge_under_seeded_record:
  assumes "forEachProperty ps Md [] p = Inr D"
    and "supportedProperties ps"
    and "map_of D ''b'' = Some (JMap d)"
    and "case map_of Md ''b'' of
           None \<Rightarrow> cm = shadowed ''x'' v0 []
         | Some (JMap cd) \<Rightarrow> cm = shadowed ''x'' v0 cd
         | Some _ \<Rightarrow> False"
    and "continues v0"
  shows "forEachProperty ps ((''b'', JMap cm) # filter (\<lambda>entry. fst entry \<noteq> ''b'') Md) [] p
           = Inr ((''b'', JMap (shadowed ''x'' v0 d)) # filter (\<lambda>entry. fst entry \<noteq> ''b'') D)"
  using assms
proof (induction ps arbitrary: Md cm)
  case Nil
  then show ?case by (auto split: option.splits jsvalue.splits)
next
  case (Cons pa rest)
  obtain assignmentName init where pa: "pa = PropertyAssignment assignmentName init"
    by (cases pa)
  from Cons.prems(2) pa have sup: "supportedShape assignmentName init" "supportedProperties rest"
    by simp_all
  note IH = Cons.IH [OF _ sup(2) Cons.prems(3) _ Cons.prems(5)]
  let ?f = "filter (\<lambda>entry. fst entry \<noteq> ''b'')"
  let ?q = "propertyPathOf p assignmentName"
  from Cons.prems(1) [unfolded pa]
  have "forEachProperty (PropertyAssignment assignmentName init # rest)
           ((''b'', JMap cm) # ?f Md) [] p
         = Inr ((''b'', JMap (shadowed ''x'' v0 d)) # ?f D)"
  proof (cases rule: forEachProperty_Cons_Inr)
    case removed
    then show ?thesis by simp
  next
    case (continue initializer)
    show ?thesis
    proof (cases "assignmentName = ''b''")
      case True
      with continue Cons.prems(4) show ?thesis
        by (cases rule: stepFor_cases [of "map_of Md ''b''" initializer])
           (auto split: option.splits jsvalue.splits)
    next
      case False
      from IH [OF continue(4) Cons.prems(4)] continue False show ?thesis
        by (simp add: map_of_filter_other)
    qed
  next
    case (descend initializer c c')
    show ?thesis
    proof (cases "assignmentName = ''b''")
      case True
      with descend have init: "initializer = init" by (simp add: devServerInitializer_def)
      from descend(3) True Cons.prems(4) have cm: "cm = shadowed ''x'' v0 c"
        by (cases rule: stepFor_cases [of "map_of Md ''b''" initializer])
           (auto split: option.splits jsvalue.splits)
      from shadow_simulation(1) [rule_format, OF descend(4) Cons.prems(5)]
      have child: "buildMetadataFromConfig initializer cm [] ?q = Inr (shadowed ''x'' v0 c')"
        by (simp add: cm)
      have "forEachProperty rest ((''b'', JMap (shadowed ''x'' v0 c')) # ?f (Map_set Md ''b'' (JMap c'))) [] p
              = Inr ((''b'', JMap (shadowed ''x'' v0 d)) # ?f D)"
        using descend(5) True by (intro IH) (simp_all add: update_conv')
      with child descend True show ?thesis
        by (simp add: stepFor_def filter_update_same)
    next
      case False
      have "forEachProperty rest ((''b'', JMap cm) # ?f (Map_set Md assignmentName (JMap c'))) [] p
              = Inr ((''b'', JMap (shadowed ''x'' v0 d)) # ?f D)"
        using descend(5) False Cons.prems(4) by (intro IH) (simp_all add: update_conv')
      with descend False show ?thesis
        by (simp add: map_of_filter_other filter_update_other)
    qed
  next
    case (assign initializer v)
    show ?thesis
    proof (cases "assignmentName = ''b''")
      case True
      with assign have init: "initializer = init" by (simp add: devServerInitializer_def)
      from assign(3) have "\<not> isObjectLiteralExpression initializer \<and> v = fromLiteralToPrimitive initializer"
        by (cases rule: stepFor_cases [of "map_of Md assignmentName" initializer]) auto
      with sup(1) True init have "continues v" by (simp add: supported_primitive_continues)
      moreover have "map_of (Map_set Md assignmentName v) ''b'' = Some v"
        using True by (simp add: update_conv')
      ultimately have "map_of D ''b'' = Some v"
        using primitive_persists(2) [rule_format, OF assign(4)] by blast
      with Cons.prems(3) \<open>continues v\<close> show ?thesis by auto
    next
      case False
      have "forEachProperty rest ((''b'', JMap cm) # ?f (Map_set Md assignmentName v)) [] p
              = Inr ((''b'', JMap (shadowed ''x'' v0 d)) # ?f D)"
        using assign(4) False Cons.prems(4) by (intro IH) (simp_all add: update_conv')
      with assign False show ?thesis
        by (simp add: map_of_filter_other filter_update_other)
    qed
  qed
  then show ?case by (simp only: pa)
qed


lemma supported_exampleFile: "supportedExport (exampleFile configAB)"
  by (simp add: supportedExport_def recognizedExport_def exampleFile_def configAB_def)

text \<open>
  C3, as stated, fails: the file \<^verbatim>\<open>export default defineConfig({a: 1, b: foo(), b: {x: 1, y: 2}})\<close>
  decodes to \<^verbatim>\<open>{a: 1, b: {x: 1, y: 2}}\<close> (the call is read as \<^verbatim>\<open>undefined\<close>, which the second
  \<^verbatim>\<open>b\<close> replaces), yet merging \<^verbatim>\<open>{b: {x: 9}}\<close> into it fails: at the first \<^verbatim>\<open>b\<close> the map holds
  the new record, and the call is cast to an object literal whose \<^verbatim>\<open>properties\<close> are iterated.
\<close>

theorem merge_unsupported_value_counterexample:
  "decodedConfiguration (exampleFile configAB_shadowed) = Some decodedAB
   \<and> addOrUpdateProperties initialState (exampleFile configAB_shadowed) newB False = Inl NotIterable"
  by (simp add: eval_defs example_defs configAB_shadowed_def)


text \<open>
  C3, amended: for every file whose recognized export has only property values of
  supported shapes and decodes to \<^verbatim>\<open>{a: 1, b: {x: 1, y: 2}}\<close>, \<^verbatim>\<open>addOrUpdateProperties\<close> with
  \<^verbatim>\<open>{b: {x: 9}}\<close> and \<^verbatim>\<open>overwrite = false\<close> returns a file whose recognized export decodes to
  \<^verbatim>\<open>{b: {x: 9, y: 2}, a: 1}\<close>: in \<^verbatim>\<open>b\<close> the new \<^verbatim>\<open>x\<close> wins and the existing \<^verbatim>\<open>y\<close> is kept, and
  the existing \<^verbatim>\<open>a\<close> is kept, after the keys of the new configuration.
\<close>

theorem merge_keeps_untouched:
  assumes dec: "decodedConfiguration file = Some decodedAB"
    and sup: "supportedExport file"
  shows "\<exists>file' this'. addOrUpdateProperties this file newB False = Inr (file', this')
           \<and> decodedConfiguration file'
               = Some [(''b'', JMap [(''x'', JNumber (JSNumber ''9'')), (''y'', JNumber (JSNumber ''2''))]),
                       (''a'', JNumber (JSNumber ''1''))]"
proof -
  let ?ch = "Upsert newB False"
  let ?seed = "[(''b'', JMap [(''x'', JNumber (JSNumber ''9''))])]"
  let ?m = "[(''b'', JMap [(''x'', JNumber (JSNumber ''9'')), (''y'', JNumber (JSNumber ''2''))]),
             (''a'', JNumber (JSNumber ''1''))]"
  let ?ps = "[PropertyAssignment ''b'' (ObjectLiteralExpression
                [PropertyAssignment ''x'' (NumericLiteral ''9''),
                 PropertyAssignment ''y'' (NumericLiteral ''2'')]),
              PropertyAssignment ''a'' (NumericLiteral ''1'')]"
  define t0 where "t0 = this\<lparr>configMetadataMap := [], propertiesToRemove := [], sourceFile := Some file\<rparr>"
  have t0: "configMetadataMap t0 = []" "propertiesToRemove t0 = []"
    by (simp_all add: t0_def)
  from dec obtain root where rec: "recognizedExport file = Some root"
    and run: "buildMetadataFromConfig root [] [] [] = Inr decodedAB"
    by (rule decodedConfiguration_SomeD)
  from rec obtain ps where root: "root = ObjectLiteralExpression ps"
    by (rule recognizedExport_SomeD)
  from sup rec root have sp: "supportedProperties ps" by (simp add: supportedExport_def)
  from run root have run': "forEachProperty ps [] [] [] = Inr decodedAB" by simp
  have "forEachProperty ps
          ((''b'', JMap (shadowed ''x'' (JNumber (JSNumber ''9'')) []))
             # filter (\<lambda>entry. fst entry \<noteq> ''b'') []) [] []
        = Inr ((''b'', JMap (shadowed ''x'' (JNumber (JSNumber ''9''))
                               [(''x'', JNumber (JSNumber ''1'')), (''y'', JNumber (JSNumber ''2''))]))
                # filter (\<lambda>entry. fst entry \<noteq> ''b'') decodedAB)"
    by (rule merge_under_seeded_record [OF run' sp]) (simp_all add: decodedAB_def)
  then have merged: "buildMetadataFromConfig root ?seed [] [] = Inr ?m"
    by (simp add: root shadowed_def decodedAB_def)
  have m: "if readsExisting ?ch
            then buildMetadataFromConfig root (configMetadataMap (t0\<lparr>configMetadataMap := ?seed\<rparr>))
                   (propertiesToRemove (t0\<lparr>configMetadataMap := ?seed\<rparr>)) [] = Inr ?m
            else ?m = configMetadataMap (t0\<lparr>configMetadataMap := ?seed\<rparr>)"
    using merged by (simp add: t0)
  have enc: "createPropertyAssignments ?m = Inr ?ps"
    by simp
  from transform_single_export [OF rec m enc]
  obtain file' where v: "visitEachChild ?ch (t0\<lparr>configMetadataMap := ?seed\<rparr>) file
        = Inr (file', t0\<lparr>configMetadataMap := ?seed\<rparr>\<lparr>configMetadataMap := ?m\<rparr>)"
    and r: "recognizedExport file' = Some (ObjectLiteralExpression ?ps)"
    by auto
  have seed: "createPropertyAssignments newB = Inr [PropertyAssignment ''b''
       (ObjectLiteralExpression [PropertyAssignment ''x'' (NumericLiteral ''9'')])]"
    "buildMetadataFromConfig (ObjectLiteralExpression [PropertyAssignment ''b''
       (ObjectLiteralExpression [PropertyAssignment ''x'' (NumericLiteral ''9'')])]) [] [] [] = Inr ?seed"
    by (simp_all add: eval_defs example_defs)
  have "changePropertiesTransformer ?ch t0 file
          = Inr (file', t0\<lparr>configMetadataMap := ?seed\<rparr>\<lparr>configMetadataMap := ?m\<rparr>)"
    unfolding changePropertiesTransformer_def t0 using seed v by simp
  then have "addOrUpdateProperties this file newB False
          = Inr (file', t0\<lparr>configMetadataMap := ?seed\<rparr>\<lparr>configMetadataMap := ?m\<rparr>)"
    by (simp add: addOrUpdateProperties_def t0_def)
  moreover have "decodedConfiguration file' = Some ?m"
    using r by (simp add: eval_defs)
  ultimately show ?thesis by blast
qed

theorem merge_keeps_untouched_witness:
  "decodedConfiguration (exampleFile configAB) = Some decodedAB
   \<and> supportedExport (exampleFile configAB)
   \<and> (\<exists>file' this'. addOrUpdateProperties initialState (exampleFile configAB) newB False = Inr (file', this')
           \<and> decodedConfiguration file'
               = Some [(''b'', JMap [(''x'', JNumber (JSNumber ''9'')), (''y'', JNumber (JSNumber ''2''))]),
                       (''a'', JNumber (JSNumber ''1''))])"
  using merge_keeps_untouched [OF decoded_exampleFile supported_exampleFile, of initialState]
    decoded_exampleFile supported_exampleFile
  by blast


subsection \<open>The reserved key\<close>



























end
